theory Spec2Isabelle
  imports Complex_Main
begin

section \<open>The analysis pipeline of autolysis.py\<close>

text \<open>
  The program is one class, \<^verbatim>\<open>AutomatedAnalysis\<close>, whose constructor ingests and
  preprocesses a CSV file and whose \<^verbatim>\<open>run_analysis\<close> summarises, clusters, narrates
  and reports. Its own logic is the order of the calls, the dtype selection, the
  \<^verbatim>\<open>try/except\<close> scopes and the string handling of the output folder; the numerical
  work is done by pandas, scikit-learn, tenacity and the chat service. The embedding
  keeps the first as HOL functions and takes the second as the fields of one record of
  library functions (\<open>ext\<close>), so that every theorem holds for whatever those libraries
  compute. Only where a claim is about what scikit-learn's scaler and KMeans compute
  are these two taken as the specification describes them (\<open>spec_clusterer\<close>).
\<close>

subsection \<open>Exceptions\<close>

text \<open>
  A Python exception is identified by its class, here by the name of the class. The
  source defines no exception class of its own: it raises \<^verbatim>\<open>ValueError\<close>
  (load_dataset) and \<^verbatim>\<open>EnvironmentError\<close> (get_api_token) and lets the exceptions
  of the libraries pass. (In Python 3 \<^verbatim>\<open>EnvironmentError\<close> is another name of the
  class \<^verbatim>\<open>OSError\<close>.)
\<close>

datatype exc = Exc string

abbreviation ValueError :: exc where "ValueError \<equiv> Exc ''ValueError''"
abbreviation EnvironmentError :: exc where "EnvironmentError \<equiv> Exc ''OSError''"
abbreviation FileNotFoundError :: exc where "FileNotFoundError \<equiv> Exc ''FileNotFoundError''"
abbreviation FileExistsError :: exc where "FileExistsError \<equiv> Exc ''FileExistsError''"
abbreviation IsADirectoryError :: exc where "IsADirectoryError \<equiv> Exc ''IsADirectoryError''"
abbreviation IndexError :: exc where "IndexError \<equiv> Exc ''IndexError''"
abbreviation KeyError :: exc where "KeyError \<equiv> Exc ''KeyError''"
abbreviation RetryError :: exc where "RetryError \<equiv> Exc ''RetryError''"

subsection \<open>The Table: a pandas DataFrame\<close>

text \<open>
  A column has one dtype for all its cells: \<open>NumCol\<close> is a column that
  \<^verbatim>\<open>select_dtypes(include=[np.number])\<close> selects (int64, float64), \<open>ObjCol\<close> one that
  \<^verbatim>\<open>select_dtypes(include=['object'])\<close> selects (Python objects, each given by its
  text: strings, and the datetime objects pandas leaves in such a column),
  \<open>DtCol\<close> a datetime64 column (timestamps as integers). A missing cell (NaN, None,
  NaT) is \<open>None\<close>. Floats are
  taken as reals: rounding is not modelled, and no theorem below depends on a computed
  number. A frame holds its row count (the length of the index) and its columns in order.
\<close>

datatype column =
    NumCol "real option list"
  | ObjCol "string option list"
  | DtCol "int option list"

datatype dtype = Number | Object | Datetime

record dataframe =
  nrows :: nat
  cols :: "(string \<times> column) list"

fun col_len :: "column \<Rightarrow> nat" where
  "col_len (NumCol xs) = length xs"
| "col_len (ObjCol xs) = length xs"
| "col_len (DtCol xs) = length xs"

fun dtype_of :: "column \<Rightarrow> dtype" where
  "dtype_of (NumCol xs) = Number"
| "dtype_of (ObjCol xs) = Object"
| "dtype_of (DtCol xs) = Datetime"

text \<open>\<^verbatim>\<open>isnull().sum()\<close> of one column: the number of missing cells.\<close>

fun isnull_sum :: "column \<Rightarrow> nat" where
  "isnull_sum (NumCol xs) = length (filter (\<lambda>x. x = None) xs)"
| "isnull_sum (ObjCol xs) = length (filter (\<lambda>x. x = None) xs)"
| "isnull_sum (DtCol xs) = length (filter (\<lambda>x. x = None) xs)"

definition columns :: "dataframe \<Rightarrow> string list" where
  "columns d = map fst (cols d)"

text \<open>\<^verbatim>\<open>df.shape\<close>.\<close>

definition shape :: "dataframe \<Rightarrow> nat \<times> nat" where
  "shape d = (nrows d, length (cols d))"

text \<open>
  What pandas guarantees of every frame it builds: the column names are distinct
  (\<^verbatim>\<open>read_csv\<close> renames duplicates) and every column has one cell per row.
\<close>

definition well_formed :: "dataframe \<Rightarrow> bool" where
  "well_formed d \<longleftrightarrow>
     distinct (columns d) \<and> list_all (\<lambda>nc. col_len (snd nc) = nrows d) (cols d)"

text \<open>
  \<^verbatim>\<open>df[name] = values\<close>: a value of the wrong length raises ValueError; an existing
  column is replaced where it stands, a new one is appended.
\<close>

definition setitem :: "dataframe \<Rightarrow> string \<Rightarrow> column \<Rightarrow> exc + dataframe" where
  "setitem d name c =
     (if col_len c \<noteq> nrows d then Inl ValueError
      else if name \<in> set (columns d)
           then Inr (d\<lparr>cols := map (\<lambda>nc. if fst nc = name then (name, c) else nc) (cols d)\<rparr>)
           else Inr (d\<lparr>cols := cols d @ [(name, c)]\<rparr>))"

subsection \<open>Results of the stages\<close>

datatype pyval = PyNum real | PyStr string | PyNaN

record summary =
  total_rows :: nat
  total_columns :: nat
  column_types :: "(string \<times> dtype) list"
  missing_values :: "(string \<times> nat) list"
  numeric_summary :: "(string \<times> (string \<times> pyval) list) list"

record cluster_result =
  cluster_centers :: "real list list"
  inertia :: real

text \<open>
  The chat service's reply, as far as the source reads it:
  \<^verbatim>\<open>response['choices'][0]['message']['content']\<close>. A choice without that path is \<open>None\<close>.
\<close>

record response =
  choices :: "string option list"

subsection \<open>The world outside the object\<close>

text \<open>
  Each \<^verbatim>\<open>print\<close> of the class is one event, with the values it interpolates.
\<close>

datatype event =
    Loaded nat nat
  | LoadFailed exc
  | NarrativeFailed exc
  | Saved
  | SaveFailed exc

text \<open>
  A file is the sequence of pieces written to it. A piece of the report is one
  \<^verbatim>\<open>f.write\<close> call: a fixed text, or an f-string, named here by what it
  interpolates (Python's rendering of numbers and arrays is not modelled).
\<close>

datatype chunk =
    Text string
  | Overview string
  | TotalRows nat
  | TotalColumns nat
  | ColumnType string dtype
  | MissingCount string nat
  | StatName string
  | StatValue string pyval
  | ClusterCenters "real list list"
  | Inertia real
  | Insights string

datatype node = Dir | File "chunk list"

text \<open>
  The world: what was printed, the file system, the number of requests made to the chat
  service, and the seconds slept between attempts. (The reachability probe that the
  module makes once when it is imported is outside the class and is not counted.)
\<close>

record world =
  stdout :: "event list"
  fsys :: "string \<Rightarrow> node option"
  requests :: nat
  slept :: "nat list"

subsection \<open>The libraries\<close>

text \<open>
  What \<^verbatim>\<open>pd.to_datetime(..., errors='coerce')\<close>, called without \<^verbatim>\<open>utc=True\<close>, makes of
  a column of texts: a datetime64 column; or, when the texts carry different UTC
  offsets, a column of dtype object holding datetime objects (pandas 2) or a
  ValueError (pandas 3).
\<close>

datatype date_parse = AsDatetime | AsObject | Refused

text \<open>
  The functions of pandas, scikit-learn, chardet, the operating system and the chat
  service that the source calls and whose results it only passes on. \<open>chat_completion\<close>
  is indexed by the number of requests already made, so that a service may fail on
  one attempt and answer on the next. The three \<open>fault\<close> fields are the operating
  system's failures (permissions, full disk) of a directory creation, of opening a file
  for writing and of the n-th write to it.
\<close>

record ext =
  chardet_detect :: "chunk list \<Rightarrow> string option"
  parse_csv :: "string \<Rightarrow> chunk list \<Rightarrow> exc + dataframe"
  date_parse :: "string option list \<Rightarrow> date_parse"
  parse_datetime :: "string option list \<Rightarrow> string \<Rightarrow> int option"
  parse_object :: "string option list \<Rightarrow> string \<Rightarrow> string option"
  number_datetime :: "real \<Rightarrow> int option"
  describe :: "dataframe \<Rightarrow> (string \<times> (string \<times> pyval) list) list"
  standard_scaler :: "real option list list \<Rightarrow> real option list list"
  kmeans :: "nat \<Rightarrow> real option list list \<Rightarrow> exc + (int list \<times> real list list \<times> real)"
  getenv :: "string \<Rightarrow> string option"
  chat_completion :: "nat \<Rightarrow> summary \<Rightarrow> cluster_result \<Rightarrow> exc + response"
  mkdir_fault :: "string \<Rightarrow> exc option"
  open_fault :: "string \<Rightarrow> exc option"
  write_fault :: "nat \<Rightarrow> exc option"

subsection \<open>preprocess_data\<close>

text \<open>
  \<^verbatim>\<open>pd.to_datetime(col, errors='coerce')\<close>. A datetime column is returned as it is,
  and a numeric column becomes a datetime column. Of a column of dtype object the
  library decides the outcome (\<open>date_parse\<close>): a datetime column, an object column, or
  a ValueError. In a returned column every cell is converted, and a cell that is missing
  or does not convert is missing (NaT). The parser of a cell is given the whole column,
  since pandas may take the format from its first cells.
\<close>

fun to_datetime :: "ext \<Rightarrow> column \<Rightarrow> exc + column" where
  "to_datetime E (DtCol xs) = Inr (DtCol xs)"
| "to_datetime E (NumCol xs) =
     Inr (DtCol (map (\<lambda>x. case x of None \<Rightarrow> None | Some r \<Rightarrow> number_datetime E r) xs))"
| "to_datetime E (ObjCol xs) =
     (case date_parse E xs of
        AsDatetime \<Rightarrow>
          Inr (DtCol (map (\<lambda>x. case x of None \<Rightarrow> None | Some s \<Rightarrow> parse_datetime E xs s) xs))
      | AsObject \<Rightarrow>
          Inr (ObjCol (map (\<lambda>x. case x of None \<Rightarrow> None | Some s \<Rightarrow> parse_object E xs s) xs))
      | Refused \<Rightarrow> Inl ValueError)"

text \<open>\<^verbatim>\<open>fillna('Unknown')\<close> on the columns of dtype object.\<close>

fun fillna_unknown :: "column \<Rightarrow> column" where
  "fillna_unknown (ObjCol xs) =
     ObjCol (map (\<lambda>x. case x of None \<Rightarrow> Some ''Unknown'' | Some s \<Rightarrow> Some s) xs)"
| "fillna_unknown c = c"

text \<open>The cells of a numeric column that are present, and their median.\<close>

definition present :: "real option list \<Rightarrow> real list" where
  "present xs = map the (filter (\<lambda>x. x \<noteq> None) xs)"

definition median :: "real list \<Rightarrow> real" where
  "median xs =
     (let s = sort xs; n = length s
      in if odd n then s ! (n div 2) else (s ! (n div 2 - 1) + s ! (n div 2)) / 2)"

fun impute_median :: "column \<Rightarrow> column" where
  "impute_median (NumCol xs) =
     NumCol (map (\<lambda>x. case x of None \<Rightarrow> Some (median (present xs)) | Some r \<Rightarrow> Some r) xs)"
| "impute_median c = c"

text \<open>\<^verbatim>\<open>df.select_dtypes(include=[np.number])\<close>, as the list of the selected cell lists.\<close>

definition select_number :: "dataframe \<Rightarrow> real option list list" where
  "select_number d = concat (map (\<lambda>nc. case snd nc of NumCol xs \<Rightarrow> [xs] | _ \<Rightarrow> []) (cols d))"

text \<open>
  \<^verbatim>\<open>self.df[numeric_cols] = SimpleImputer(strategy='median').fit_transform(...)\<close>.
  scikit-learn validates its input and raises ValueError on a matrix with no column or
  no row. A column with no observed value has no median: the imputer leaves it out of
  its output, and the assignment of a matrix with fewer columns than keys raises
  ValueError. Otherwise every missing cell gets its own column's median.
\<close>

definition impute_numeric :: "dataframe \<Rightarrow> exc + dataframe" where
  "impute_numeric d =
     (if select_number d = [] \<or> nrows d = 0 then Inl ValueError
      else if list_ex (\<lambda>xs. present xs = []) (select_number d) then Inl ValueError
      else Inr (d\<lparr>cols := map (\<lambda>nc. (fst nc, impute_median (snd nc))) (cols d)\<rparr>))"

text \<open>
  \<^verbatim>\<open>if 'date' in self.df.columns: self.df['date'] = pd.to_datetime(self.df['date'], ...)\<close>:
  the column of that name is read, converted and put back where it stands.
\<close>

definition parse_dates :: "ext \<Rightarrow> dataframe \<Rightarrow> exc + dataframe" where
  "parse_dates E d =
     (case map_of (cols d) ''date'' of
        None \<Rightarrow> Inr d
      | Some c \<Rightarrow>
          (case to_datetime E c of
             Inl e \<Rightarrow> Inl e
           | Inr c' \<Rightarrow>
               Inr (d\<lparr>cols := map (\<lambda>nc. if fst nc = ''date'' then (fst nc, c') else nc)
                                  (cols d)\<rparr>)))"

definition fill_categorical :: "dataframe \<Rightarrow> dataframe" where
  "fill_categorical d = d\<lparr>cols := map (\<lambda>nc. (fst nc, fillna_unknown (snd nc))) (cols d)\<rparr>"

definition preprocess_data :: "ext \<Rightarrow> dataframe \<Rightarrow> exc + dataframe" where
  "preprocess_data E d =
     (case parse_dates E d of
        Inl e \<Rightarrow> Inl e
      | Inr d1 \<Rightarrow> impute_numeric (fill_categorical d1))"

subsection \<open>get_data_summary\<close>

text \<open>
  \<^verbatim>\<open>describe()\<close> raises ValueError on a frame without columns; its statistics are the
  library's.
\<close>

definition get_data_summary :: "ext \<Rightarrow> dataframe \<Rightarrow> exc + summary" where
  "get_data_summary E d =
     (if cols d = [] then Inl ValueError
      else Inr \<lparr>total_rows = nrows d,
                total_columns = length (columns d),
                column_types = map (\<lambda>nc. (fst nc, dtype_of (snd nc))) (cols d),
                missing_values = map (\<lambda>nc. (fst nc, isnull_sum (snd nc))) (cols d),
                numeric_summary = describe E d\<rparr>)"

subsection \<open>Ingestion: detect_encoding, load_dataset, get_api_token\<close>

text \<open>\<^verbatim>\<open>open(path, 'rb').read()\<close>.\<close>

definition open_rb :: "world \<Rightarrow> string \<Rightarrow> exc + chunk list" where
  "open_rb w path =
     (case fsys w path of
        None \<Rightarrow> Inl FileNotFoundError
      | Some Dir \<Rightarrow> Inl IsADirectoryError
      | Some (File bytes) \<Rightarrow> Inr bytes)"

text \<open>\<^verbatim>\<open>result['encoding'] or 'utf-8'\<close>: None and the empty string both give utf-8.\<close>

definition detect_encoding :: "ext \<Rightarrow> string \<Rightarrow> world \<Rightarrow> exc + string" where
  "detect_encoding E path w =
     (case open_rb w path of
        Inl e \<Rightarrow> Inl e
      | Inr raw \<Rightarrow>
          Inr (case chardet_detect E raw of
                 None \<Rightarrow> ''utf-8''
               | Some enc \<Rightarrow> if enc = [] then ''utf-8'' else enc))"

text \<open>
  \<^verbatim>\<open>pd.read_csv(path, encoding=..., low_memory=False, on_bad_lines='skip')\<close> opens the
  file itself; the parse of its bytes (which skips the malformed rows) is the library's.
\<close>

definition read_csv :: "ext \<Rightarrow> world \<Rightarrow> string \<Rightarrow> string \<Rightarrow> exc + dataframe" where
  "read_csv E w path enc =
     (case open_rb w path of Inl e \<Rightarrow> Inl e | Inr bytes \<Rightarrow> parse_csv E enc bytes)"

text \<open>
  The \<^verbatim>\<open>try\<close> of load_dataset: any exception of \<^verbatim>\<open>read_csv\<close> is printed and
  raised again as ValueError; a parsed frame is returned whatever its shape.
\<close>

definition load_dataset :: "ext \<Rightarrow> string \<Rightarrow> string \<Rightarrow> world \<Rightarrow> (exc + dataframe) \<times> world" where
  "load_dataset E path enc w =
     (case read_csv E w path enc of
        Inr d \<Rightarrow> (Inr d, w\<lparr>stdout := stdout w @ [Loaded (fst (shape d)) (snd (shape d))]\<rparr>)
      | Inl e \<Rightarrow> (Inl ValueError, w\<lparr>stdout := stdout w @ [LoadFailed e]\<rparr>))"

text \<open>\<^verbatim>\<open>if not token\<close>: an unset and an empty variable both raise.\<close>

definition get_api_token :: "ext \<Rightarrow> exc + string" where
  "get_api_token E =
     (case getenv E ''AIPROXY_TOKEN'' of
        None \<Rightarrow> Inl EnvironmentError
      | Some token \<Rightarrow> if token = [] then Inl EnvironmentError else Inr token)"

subsection \<open>perform_clustering\<close>

text \<open>
  \<^verbatim>\<open>StandardScaler().fit_transform\<close> validates like the imputer: ValueError on no
  column or no row. \<^verbatim>\<open>KMeans(...).fit_predict\<close> is the library's and may raise. The
  labels become the column \<^verbatim>\<open>cluster\<close> of the frame.
\<close>

definition perform_clustering ::
  "ext \<Rightarrow> nat \<Rightarrow> dataframe \<Rightarrow> exc + dataframe \<times> cluster_result" where
  "perform_clustering E n_clusters d =
     (if select_number d = [] \<or> nrows d = 0 then Inl ValueError
      else case kmeans E n_clusters (standard_scaler E (select_number d)) of
             Inl e \<Rightarrow> Inl e
           | Inr (labels, centers, sse) \<Rightarrow>
               (case setitem d ''cluster'' (NumCol (map (\<lambda>l. Some (of_int l)) labels)) of
                  Inl e \<Rightarrow> Inl e
                | Inr d' \<Rightarrow> Inr (d', \<lparr>cluster_centers = centers, inertia = sse\<rparr>)))"

subsection \<open>generate_narrative\<close>

definition fallback :: string where
  "fallback = ''An error occurred while generating the narrative.''"

text \<open>\<^verbatim>\<open>str.strip()\<close>: the ASCII characters that \<^verbatim>\<open>str.isspace\<close> accepts.\<close>

definition is_space :: "char \<Rightarrow> bool" where
  "is_space c \<longleftrightarrow>
     c \<in> set [CHR '' '', CHR 0x09, CHR 0x0A, CHR 0x0B, CHR 0x0C, CHR 0x0D,
                CHR 0x1C, CHR 0x1D, CHR 0x1E, CHR 0x1F]"

definition strip :: "string \<Rightarrow> string" where
  "strip s = rev (dropWhile is_space (rev (dropWhile is_space s)))"

text \<open>\<^verbatim>\<open>response['choices'][0]['message']['content']\<close>.\<close>

definition content_of :: "response \<Rightarrow> exc + string" where
  "content_of r =
     (case choices r of
        [] \<Rightarrow> Inl IndexError
      | None # _ \<Rightarrow> Inl KeyError
      | Some s # _ \<Rightarrow> Inr s)"

text \<open>
  The body of generate_narrative, one request to the service. Everything from the
  request to the \<^verbatim>\<open>return\<close> is inside \<^verbatim>\<open>try ... except Exception\<close>, whose handler
  prints the error and returns the fallback sentence.
\<close>

definition narrative_body ::
  "ext \<Rightarrow> summary \<Rightarrow> cluster_result \<Rightarrow> world \<Rightarrow> (exc + string) \<times> world" where
  "narrative_body E S R w =
     (let w' = w\<lparr>requests := Suc (requests w)\<rparr> in
      case chat_completion E (requests w) S R of
        Inl e \<Rightarrow> (Inr fallback, w'\<lparr>stdout := stdout w' @ [NarrativeFailed e]\<rparr>)
      | Inr r \<Rightarrow>
          (case content_of r of
             Inl e \<Rightarrow> (Inr fallback, w'\<lparr>stdout := stdout w' @ [NarrativeFailed e]\<rparr>)
           | Inr s \<Rightarrow> (Inr (strip s), w')))"

text \<open>
  tenacity's \<^verbatim>\<open>wait_exponential(multiplier=1, min=4, max=10)\<close>: the seconds slept after
  the failed attempt number n.
\<close>

definition wait_exponential :: "nat \<Rightarrow> nat" where
  "wait_exponential n = max 4 (min (1 * 2 ^ (n - 1)) 10)"

text \<open>
  tenacity's \<^verbatim>\<open>@retry(stop=stop_after_attempt(3), wait=...)\<close> around a function: the
  function is called; a returned value is returned; an exception is retried after the
  wait, unless this was the last of the attempts, which raises RetryError. The first
  argument counts the attempts left, the second is the number of the attempt.
\<close>

fun retry ::
  "nat \<Rightarrow> nat \<Rightarrow> (world \<Rightarrow> (exc + 'a) \<times> world) \<Rightarrow> world \<Rightarrow> (exc + 'a) \<times> world" where
  "retry 0 n f w = (Inl RetryError, w)"
| "retry (Suc left) n f w =
     (case f w of
        (Inr v, w') \<Rightarrow> (Inr v, w')
      | (Inl e, w') \<Rightarrow>
          if left = 0 then (Inl RetryError, w')
          else retry left (Suc n) f (w'\<lparr>slept := slept w' @ [wait_exponential n]\<rparr>))"

definition generate_narrative ::
  "ext \<Rightarrow> summary \<Rightarrow> cluster_result \<Rightarrow> world \<Rightarrow> (exc + string) \<times> world" where
  "generate_narrative E S R w = retry 3 1 (narrative_body E S R) w"

subsection \<open>save_results\<close>

text \<open>\<^verbatim>\<open>str.split(sep)\<close> for a one-character separator.\<close>

fun str_split :: "char \<Rightarrow> string \<Rightarrow> string list" where
  "str_split sep [] = [[]]"
| "str_split sep (c # cs) =
     (if c = sep then [] # str_split sep cs
      else case str_split sep cs of [] \<Rightarrow> [[c]] | p # ps \<Rightarrow> (c # p) # ps)"

text \<open>\<^verbatim>\<open>self.dataset_path.split('.')[0]\<close>.\<close>

definition folder_name :: "string \<Rightarrow> exc + string" where
  "folder_name path = (case str_split CHR ''.'' path of [] \<Rightarrow> Inl IndexError | p # _ \<Rightarrow> Inr p)"

text \<open>
  \<^verbatim>\<open>os.makedirs(folder, exist_ok=True)\<close>: the empty path raises FileNotFoundError, a path
  that is a file raises FileExistsError, an existing directory is left alone, and a
  new one is created unless the system refuses.
\<close>

definition makedirs :: "ext \<Rightarrow> string \<Rightarrow> world \<Rightarrow> exc + world" where
  "makedirs E folder w =
     (if folder = [] then Inl FileNotFoundError
      else case fsys w folder of
             Some Dir \<Rightarrow> Inr w
           | Some (File c) \<Rightarrow> Inl FileExistsError
           | None \<Rightarrow>
               (case mkdir_fault E folder of
                  Some e \<Rightarrow> Inl e
                | None \<Rightarrow> Inr (w\<lparr>fsys := (fsys w)(folder \<mapsto> Dir)\<rparr>)))"

text \<open>\<^verbatim>\<open>open(p, "w")\<close>: the file is created or truncated.\<close>

definition open_w :: "ext \<Rightarrow> string \<Rightarrow> world \<Rightarrow> exc + world" where
  "open_w E p w =
     (case open_fault E p of
        Some e \<Rightarrow> Inl e
      | None \<Rightarrow>
          (case fsys w p of
             Some Dir \<Rightarrow> Inl IsADirectoryError
           | _ \<Rightarrow> Inr (w\<lparr>fsys := (fsys w)(p \<mapsto> File [])\<rparr>)))"

definition append_chunk :: "string \<Rightarrow> chunk \<Rightarrow> world \<Rightarrow> world" where
  "append_chunk p c w =
     w\<lparr>fsys := (fsys w)(p \<mapsto> File ((case fsys w p of Some (File cs) \<Rightarrow> cs | _ \<Rightarrow> []) @ [c]))\<rparr>"

text \<open>The \<^verbatim>\<open>f.write\<close> calls in order; the k-th may fail, and what was written stays.\<close>

fun write_all :: "ext \<Rightarrow> string \<Rightarrow> nat \<Rightarrow> chunk list \<Rightarrow> world \<Rightarrow> exc option \<times> world" where
  "write_all E p k [] w = (None, w)"
| "write_all E p k (c # cs) w =
     (case write_fault E k of
        Some e \<Rightarrow> (Some e, w)
      | None \<Rightarrow> write_all E p (Suc k) cs (append_chunk p c w))"

definition report_chunks :: "string \<Rightarrow> summary \<Rightarrow> cluster_result \<Rightarrow> string \<Rightarrow> chunk list" where
  "report_chunks path S R narrative =
     [Text ''# Automated Dataset Analysis\<newline>\<newline>'',
      Text ''## Overview\<newline>'',
      Overview path,
      Text ''## Dataset Summary\<newline>'',
      Text ''The dataset consists of the following structure:\<newline>\<newline>'',
      Text ''### Data Overview\<newline>'',
      TotalRows (total_rows S),
      TotalColumns (total_columns S),
      Text ''### Column Data Types\<newline>'',
      Text ''```\<newline>'']
     @ map (\<lambda>ct. ColumnType (fst ct) (snd ct)) (column_types S)
     @ [Text ''```\<newline>'',
        Text ''### Missing Values\<newline>'',
        Text ''```\<newline>'']
     @ map (\<lambda>mv. MissingCount (fst mv) (snd mv)) (missing_values S)
     @ [Text ''```\<newline>'',
        Text ''### Numeric Summary\<newline>'',
        Text ''```\<newline>'']
     @ concat (map (\<lambda>sv. StatName (fst sv) # map (\<lambda>cv. StatValue (fst cv) (snd cv)) (snd sv))
                 (numeric_summary S))
     @ [Text ''```\<newline>'',
        Text ''\<newline>## Data Preprocessing\<newline>'',
        Text ''Before performing any analysis, several preprocessing steps were conducted to clean and prepare the data:\<newline>\<newline>'',
        Text ''- **Missing Values Handling**: Missing values in categorical columns were replaced with 'Unknown'. Numeric columns had missing values imputed using the median.\<newline>'',
        Text ''- **Date Parsing**: Any columns containing dates were parsed and converted into datetime objects.\<newline>'',
        Text ''- **Standardization**: Numerical data was standardized to ensure that features are on the same scale before applying clustering algorithms.\<newline>'',
        Text ''\<newline>## Clustering Analysis\<newline>'',
        Text ''To uncover patterns in the data, we performed K-Means clustering on the dataset. The number of clusters was set to 3 based on prior understanding.\<newline>\<newline>'',
        Text ''### Clustering Results\<newline>'',
        ClusterCenters (cluster_centers R),
        Inertia (inertia R),
        Text ''### Cluster Distribution\<newline>'',
        Text ''The following plot shows the distribution of data points across the clusters:\<newline>\<newline>'',
        Text ''![Cluster Distribution](cluster_distribution.png)\<newline>'',
        Text ''\<newline>## Visualizations\<newline>'',
        Text ''The following visualizations help in understanding the data distribution and clustering results:\<newline>\<newline>'',
        Text ''### Correlation Heatmap\<newline>'',
        Text ''This heatmap displays the correlation between the numerical features in the dataset.\<newline>\<newline>'',
        Text ''![Correlation Heatmap](correlation_heatmap.png)\<newline>'',
        Text ''\<newline>## Narrative Summary\<newline>'',
        Text ''Below is the detailed narrative generated from the dataset analysis:\<newline>\<newline>'',
        Text ''### Insights\<newline>'',
        Insights narrative,
        Text ''\<newline>## Conclusion\<newline>'',
        Text ''The analysis provides a deep understanding of the dataset. Key findings include:\<newline>\<newline>'',
        Text ''- The dataset has several missing values, which were appropriately handled during preprocessing.\<newline>'',
        Text ''- Three clusters were identified through K-Means clustering, which offer a meaningful segmentation of the data.\<newline>'',
        Text ''- Visualizations helped in identifying relationships between variables and the distribution of data across clusters.\<newline>\<newline>'',
        Text ''Future improvements could involve experimenting with other clustering techniques or incorporating additional data sources.'']"

text \<open>
  The \<^verbatim>\<open>try\<close> of save_results: opening README.md and every write. Its handler prints
  the error and returns.
\<close>

definition write_report :: "ext \<Rightarrow> string \<Rightarrow> chunk list \<Rightarrow> world \<Rightarrow> world" where
  "write_report E p cs w =
     (case open_w E p w of
        Inl e \<Rightarrow> w\<lparr>stdout := stdout w @ [SaveFailed e]\<rparr>
      | Inr w1 \<Rightarrow>
          (case write_all E p 0 cs w1 of
             (Some e, w2) \<Rightarrow> w2\<lparr>stdout := stdout w2 @ [SaveFailed e]\<rparr>
           | (None, w2) \<Rightarrow> w2\<lparr>stdout := stdout w2 @ [Saved]\<rparr>))"

text \<open>
  save_results: the folder name and \<^verbatim>\<open>os.makedirs\<close> come before the \<^verbatim>\<open>try\<close>, so
  their exceptions leave the function.
\<close>

definition save_results ::
  "ext \<Rightarrow> string \<Rightarrow> summary \<Rightarrow> cluster_result \<Rightarrow> string \<Rightarrow> world \<Rightarrow> (exc + unit) \<times> world" where
  "save_results E path S R narrative w =
     (case folder_name path of
        Inl e \<Rightarrow> (Inl e, w)
      | Inr folder \<Rightarrow>
          (case makedirs E folder w of
             Inl e \<Rightarrow> (Inl e, w)
           | Inr w1 \<Rightarrow>
               (Inr (), write_report E (folder @ ''/README.md'')
                          (report_chunks path S R narrative) w1)))"

subsection \<open>The object: the constructor and run_analysis\<close>

record analysis =
  dataset_path :: string
  encoding :: string
  df :: dataframe
  api_token :: string

definition init :: "ext \<Rightarrow> string \<Rightarrow> world \<Rightarrow> (exc + analysis) \<times> world" where
  "init E path w =
     (case detect_encoding E path w of
        Inl e \<Rightarrow> (Inl e, w)
      | Inr enc \<Rightarrow>
          (case load_dataset E path enc w of
             (Inl e, w1) \<Rightarrow> (Inl e, w1)
           | (Inr d, w1) \<Rightarrow>
               (case preprocess_data E d of
                  Inl e \<Rightarrow> (Inl e, w1)
                | Inr d' \<Rightarrow>
                    (case get_api_token E of
                       Inl e \<Rightarrow> (Inl e, w1)
                     | Inr token \<Rightarrow>
                         (Inr \<lparr>dataset_path = path, encoding = enc, df = d',
                               api_token = token\<rparr>, w1)))))"

text \<open>
  run_analysis returns nothing; the model returns the frame the object holds at the
  end, which is what the method leaves behind.
\<close>

definition run_analysis :: "ext \<Rightarrow> analysis \<Rightarrow> world \<Rightarrow> (exc + dataframe) \<times> world" where
  "run_analysis E a w =
     (case get_data_summary E (df a) of
        Inl e \<Rightarrow> (Inl e, w)
      | Inr S \<Rightarrow>
          (case perform_clustering E 3 (df a) of
             Inl e \<Rightarrow> (Inl e, w)
           | Inr (d1, R) \<Rightarrow>
               (case generate_narrative E S R w of
                  (Inl e, w1) \<Rightarrow> (Inl e, w1)
                | (Inr narrative, w1) \<Rightarrow>
                    (case save_results E (dataset_path a) S R narrative w1 of
                       (Inl e, w2) \<Rightarrow> (Inl e, w2)
                     | (Inr u, w2) \<Rightarrow> (Inr d1, w2)))))"

text \<open>The script: construct, then run.\<close>

definition main :: "ext \<Rightarrow> string \<Rightarrow> world \<Rightarrow> (exc + dataframe) \<times> world" where
  "main E path w =
     (case init E path w of
        (Inl e, w1) \<Rightarrow> (Inl e, w1)
      | (Inr a, w1) \<Rightarrow> run_analysis E a w1)"

subsection \<open>The Clusterer's libraries, as the specification describes them\<close>

text \<open>
  Modelled from the spec: scikit-learn's \<^verbatim>\<open>StandardScaler.fit_transform\<close>, which the
  source calls and which is not in the repository. Each numeric feature is brought to
  zero mean and unit variance, the scaling fit on the data it transforms; a feature
  without variance is only centred. A missing cell stays missing.
\<close>

definition standardize :: "real option list \<Rightarrow> real option list" where
  "standardize xs =
     (let ys = present xs;
          n = real (length ys);
          mu = sum_list ys / n;
          var = sum_list (map (\<lambda>y. (y - mu)\<^sup>2) ys) / n;
          sd = (if var = 0 then 1 else sqrt var)
      in map (map_option (\<lambda>x. (x - mu) / sd)) xs)"

text \<open>Modelled from the spec: the scaler of the whole feature space, feature by feature.\<close>

definition spec_standard_scaler :: "real option list list \<Rightarrow> real option list list" where
  "spec_standard_scaler X = map standardize X"

text \<open>
  Modelled from the spec: the points that are clustered, one per row, each the sequence
  of the row's feature values. The library refuses a matrix with a missing cell.
\<close>

definition points_of :: "real option list list \<Rightarrow> real list list option" where
  "points_of X =
     (if list_all (\<lambda>xs. list_all (\<lambda>x. x \<noteq> None) xs) X
      then Some (map (map the) (transpose X)) else None)"

text \<open>Modelled from the spec: the squared Euclidean distance of two points.\<close>

definition dist2 :: "real list \<Rightarrow> real list \<Rightarrow> real" where
  "dist2 p q = sum_list (map2 (\<lambda>a b. (a - b)\<^sup>2) p q)"

text \<open>
  Modelled from the spec: the index of the nearest centroid; of two centroids at the
  same distance the lower-indexed one is taken.
\<close>

fun nearest :: "real list \<Rightarrow> real list list \<Rightarrow> nat" where
  "nearest p [] = 0"
| "nearest p (c # cs) =
     (if list_all (\<lambda>c'. dist2 p c \<le> dist2 p c') cs then 0 else Suc (nearest p cs))"

text \<open>Modelled from the spec: each point is assigned to its nearest centroid.\<close>

definition assign :: "real list list \<Rightarrow> real list list \<Rightarrow> nat list" where
  "assign cs pts = map (\<lambda>p. nearest p cs) pts"

text \<open>Modelled from the spec: the mean of a group of points.\<close>

definition centroid :: "real list list \<Rightarrow> real list" where
  "centroid ps = map (\<lambda>col. sum_list col / real (length ps)) (transpose ps)"

text \<open>
  Modelled from the spec: the centroids are recomputed as the means of the points
  assigned to them. (A centroid without points stays where it is; the specification
  does not say.)
\<close>

definition update :: "real list list \<Rightarrow> nat list \<Rightarrow> real list list \<Rightarrow> real list list" where
  "update cs ls pts =
     map (\<lambda>j. let members = map fst (filter (\<lambda>pl. snd pl = j) (zip pts ls))
               in if members = [] then cs ! j else centroid members)
         [0..<length cs]"

text \<open>
  Modelled from the spec: assignment and recomputation are repeated until the
  assignments no longer change or the iteration cap is reached.
\<close>

fun lloyd :: "nat \<Rightarrow> real list list \<Rightarrow> real list list \<Rightarrow> real list list" where
  "lloyd 0 cs pts = cs"
| "lloyd (Suc n) cs pts =
     (let cs' = update cs (assign cs pts) pts
      in if assign cs' pts = assign cs pts then cs' else lloyd n cs' pts)"

text \<open>Modelled from the spec: the iteration cap, the library's default.\<close>

definition max_iter :: nat where
  "max_iter = 300"

text \<open>
  Modelled from the spec: scikit-learn's \<^verbatim>\<open>KMeans(n_clusters=k, random_state=42)
  .fit_predict\<close>, which the source calls and which is not in the repository. The
  seeded choice of the k initial centroids is the argument \<open>seed\<close>. The result is the
  label of every point, the centroids, and the inertia: the sum over all points of the
  squared distance to the assigned centroid. From the library's documentation: a
  matrix with a missing cell, a cluster count of zero and fewer points than clusters
  raise ValueError.
\<close>

definition spec_kmeans ::
  "(nat \<Rightarrow> real list list \<Rightarrow> real list list) \<Rightarrow> nat \<Rightarrow> real option list list
     \<Rightarrow> exc + (int list \<times> real list list \<times> real)" where
  "spec_kmeans seed k X =
     (case points_of X of
        None \<Rightarrow> Inl ValueError
      | Some pts \<Rightarrow>
          if k = 0 \<or> length pts < k then Inl ValueError
          else (let cs = lloyd max_iter (seed k pts) pts; ls = assign cs pts
                in Inr (map int ls, cs, sum_list (map2 (\<lambda>p l. dist2 p (cs ! l)) pts ls))))"

text \<open>The libraries \<open>E\<close>, with the scaler and the clustering as just described.\<close>

definition spec_clusterer ::
  "(nat \<Rightarrow> real list list \<Rightarrow> real list list) \<Rightarrow> ext \<Rightarrow> ext" where
  "spec_clusterer seed E =
     E\<lparr>standard_scaler := spec_standard_scaler, kmeans := spec_kmeans seed\<rparr>"

text \<open>The standardized feature vectors of the rows of a table.\<close>

definition standardized_rows :: "dataframe \<Rightarrow> real list list" where
  "standardized_rows d = map (map the) (transpose (spec_standard_scaler (select_number d)))"

subsection \<open>Auxiliary definitions\<close>

text \<open>
  The column that the date parsing puts in place of the column named date (any column
  when the table has none), and what preprocess_data does to one column, by its name,
  given that column: the three steps in order, and the first two alone.
\<close>

definition date_result :: "ext \<Rightarrow> dataframe \<Rightarrow> exc + column" where
  "date_result E d =
     (case map_of (cols d) ''date'' of None \<Rightarrow> Inr (DtCol []) | Some c \<Rightarrow> to_datetime E c)"

definition pre_col :: "column \<Rightarrow> string \<Rightarrow> column \<Rightarrow> column" where
  "pre_col c' n c = fillna_unknown (if n = ''date'' then c' else c)"

definition clean_col :: "column \<Rightarrow> string \<Rightarrow> column \<Rightarrow> column" where
  "clean_col c' n c = impute_median (pre_col c' n c)"

definition imp_cells :: "real option list \<Rightarrow> real option list" where
  "imp_cells xs =
     map (\<lambda>x. case x of None \<Rightarrow> Some (median (present xs)) | Some r \<Rightarrow> Some r) xs"

subsection \<open>Concrete inputs\<close>

text \<open>
  Libraries that answer: a date parser that knows one date, a clustering that puts every
  row in cluster 0, a chat service that replies, an operating system without faults.
\<close>

definition ext0 :: ext where
  "ext0 = \<lparr>chardet_detect = (\<lambda>b. Some ''ascii''),
           parse_csv = (\<lambda>enc b. Inl (Exc ''EmptyDataError'')),
           date_parse = (\<lambda>col. AsDatetime),
           parse_datetime = (\<lambda>col s. if s = ''2024-01-01'' then Some 0 else None),
           parse_object = (\<lambda>col s. Some s),
           number_datetime = (\<lambda>r. None),
           describe = (\<lambda>d. []),
           standard_scaler = (\<lambda>X. X),
           kmeans = (\<lambda>k X. Inr (map (\<lambda>x. 0) (hd X), replicate k [], 0)),
           getenv = (\<lambda>v. Some ''token''),
           chat_completion = (\<lambda>n S R. Inr \<lparr>choices = [Some '' ok '']\<rparr>),
           mkdir_fault = (\<lambda>p. None),
           open_fault = (\<lambda>p. None),
           write_fault = (\<lambda>n. None)\<rparr>"

text \<open>
  A raw table of three rows: a date column with one date, one text that is no date and
  one empty cell; a text column and a numeric column with one empty cell each. And the
  table preprocess_data makes of it.
\<close>

definition raw0 :: dataframe where
  "raw0 = \<lparr>nrows = 3,
           cols = [(''date'', ObjCol [Some ''2024-01-01'', Some ''soon'', None]),
                   (''city'', ObjCol [Some ''Pune'', None, Some ''Agra'']),
                   (''x'', NumCol [Some 1, None, Some 4])]\<rparr>"

definition clean0 :: dataframe where
  "clean0 = \<lparr>nrows = 3,
             cols = [(''date'', DtCol [Some 0, None, None]),
                     (''city'', ObjCol [Some ''Pune'', Some ''Unknown'', Some ''Agra'']),
                     (''x'', NumCol [Some 1, Some (5/2), Some 4])]\<rparr>"

text \<open>
  A pandas 2 that meets two different UTC offsets in the date column: it returns the
  column with dtype object, the text that is no date missing. Given that column again,
  with the missing cell filled, it returns a datetime column in the first offset, the
  other cells NaT. The raw table, what preprocess_data makes of it, and what it makes of
  that.
\<close>

definition ext_mixed :: ext where
  "ext_mixed = ext0
     \<lparr>date_parse := (\<lambda>col.
        if col = [Some ''2024-01-01 10:00:00+01:00'', Some ''2024-01-01 10:00:00+02:00'',
                  Some ''soon'']
        then AsObject else AsDatetime),
      parse_datetime := (\<lambda>col s.
        if s = ''2024-01-01 10:00:00+01:00'' then Some 1704099600 else None),
      parse_object := (\<lambda>col s. if s = ''soon'' then None else Some s)\<rparr>"

definition raw_mixed :: dataframe where
  "raw_mixed = \<lparr>nrows = 3,
     cols = [(''date'', ObjCol [Some ''2024-01-01 10:00:00+01:00'',
                                Some ''2024-01-01 10:00:00+02:00'', Some ''soon'']),
             (''x'', NumCol [Some 1, Some 2, Some 3])]\<rparr>"

definition clean_mixed :: dataframe where
  "clean_mixed = \<lparr>nrows = 3,
     cols = [(''date'', ObjCol [Some ''2024-01-01 10:00:00+01:00'',
                                Some ''2024-01-01 10:00:00+02:00'', Some ''Unknown'']),
             (''x'', NumCol [Some 1, Some 2, Some 3])]\<rparr>"

definition again_mixed :: dataframe where
  "again_mixed = \<lparr>nrows = 3,
     cols = [(''date'', DtCol [Some 1704099600, None, None]),
             (''x'', NumCol [Some 1, Some 2, Some 3])]\<rparr>"

text \<open>Its summary, and what perform_clustering makes of it with these libraries.\<close>

definition summary0 :: summary where
  "summary0 = \<lparr>total_rows = 3, total_columns = 3,
      column_types = [(''date'', Datetime), (''city'', Object), (''x'', Number)],
      missing_values = [(''date'', 2), (''city'', 0), (''x'', 0)],
      numeric_summary = []\<rparr>"

definition result0 :: cluster_result where
  "result0 = \<lparr>cluster_centers = [[], [], []], inertia = 0\<rparr>"

definition clustered0 :: dataframe where
  "clustered0 = \<lparr>nrows = 3,
             cols = [(''date'', DtCol [Some 0, None, None]),
                     (''city'', ObjCol [Some ''Pune'', Some ''Unknown'', Some ''Agra'']),
                     (''x'', NumCol [Some 1, Some (5/2), Some 4]),
                     (''cluster'', NumCol [Some 0, Some 0, Some 0])]\<rparr>"

text \<open>A table of two rows.\<close>

definition two_rows :: dataframe where
  "two_rows = \<lparr>nrows = 2, cols = [(''x'', NumCol [Some 1, Some 2])]\<rparr>"

text \<open>A table without a numeric column, and a table of a header and no row.\<close>

definition text0 :: dataframe where
  "text0 = \<lparr>nrows = 2, cols = [(''city'', ObjCol [Some ''Pune'', Some ''Agra''])]\<rparr>"

definition header_only :: dataframe where
  "header_only = \<lparr>nrows = 0, cols = [(''a'', ObjCol []), (''b'', ObjCol [])]\<rparr>"

text \<open>An empty world, and objects as the constructor leaves them.\<close>

definition world0 :: world where
  "world0 = \<lparr>stdout = [], fsys = (\<lambda>p. None), requests = 0, slept = []\<rparr>"

definition analysis_of :: "string \<Rightarrow> dataframe \<Rightarrow> analysis" where
  "analysis_of path d =
     \<lparr>dataset_path = path, encoding = ''ascii'', df = d, api_token = ''token''\<rparr>"

definition a0 :: analysis where
  "a0 = analysis_of ''data.csv'' clean0"

text \<open>
  Three files and a parser for them: a header without rows parses to \<open>header_only\<close>, a
  column of city names to \<open>text0\<close>, and an empty file has no columns to parse.
\<close>

definition ext_csv :: ext where
  "ext_csv = ext0\<lparr>parse_csv := (\<lambda>enc bytes.
      if bytes = [Text ''a,b\<newline>''] then Inr header_only
      else if bytes = [Text ''city\<newline>Pune\<newline>Agra\<newline>''] then Inr text0
      else Inl (Exc ''EmptyDataError''))\<rparr>"

definition world_csv :: world where
  "world_csv = world0\<lparr>fsys := (\<lambda>p.
      if p = ''data.csv'' then Some (File [Text ''a,b\<newline>''])
      else if p = ''cities.csv'' then Some (File [Text ''city\<newline>Pune\<newline>Agra\<newline>''])
      else if p = ''empty.csv'' then Some (File [])
      else None)\<rparr>"

text \<open>
  A chat service that is down, a disk that is full at the third write, and a system
  that refuses to create directories.
\<close>

definition ext_down :: ext where
  "ext_down = ext0\<lparr>chat_completion := (\<lambda>n S R. Inl (Exc ''APIConnectionError''))\<rparr>"

definition ext_full :: ext where
  "ext_full = ext0\<lparr>write_fault := (\<lambda>k. if k = 2 then Some (Exc ''OSError'') else None)\<rparr>"

definition ext_denied :: ext where
  "ext_denied = ext0\<lparr>mkdir_fault := (\<lambda>p. Some (Exc ''PermissionError''))\<rparr>"

subsection \<open>The report folder as the specification names it\<close>

text \<open>
  The specification's words: a directory named after the input file's base name,
  extension stripped. The base name is what follows the last slash; the extension is
  what follows the last dot of the base name, unless nothing stands before that dot.
\<close>

definition spec_folder_name :: "string \<Rightarrow> string" where
  "spec_folder_name path =
     (let base = rev (takeWhile (\<lambda>c. c \<noteq> CHR ''/'') (rev path));
          stem = rev (drop 1 (dropWhile (\<lambda>c. c \<noteq> CHR ''.'') (rev base)))
      in if stem = [] then base else stem)"

section \<open>Properties\<close>

subsection \<open>preprocess_data, column by column\<close>

lemma impute_median_idem: "impute_median (impute_median c) = impute_median c"
  by (cases c) (auto split: option.splits)

lemma to_datetime_result:
  "to_datetime E c = Inr c' \<Longrightarrow> dtype_of c' \<noteq> Number \<and> col_len c' = col_len c"
  by (cases c) (auto split: date_parse.splits)

lemma to_datetime_raises: "to_datetime E c = Inl e \<Longrightarrow> e = ValueError"
  by (cases c) (auto split: date_parse.splits)

lemma date_result_not_number: "date_result E d = Inr c' \<Longrightarrow> dtype_of c' \<noteq> Number"
  by (auto simp: date_result_def split: option.splits dest: to_datetime_result)

lemma map_of_None_names: "map_of cs k = None \<Longrightarrow> \<forall>nc\<in>set cs. fst nc \<noteq> k"
  by (induction cs) (auto split: if_splits)

lemma parse_dates_cols:
  assumes "parse_dates E d = Inr d1"
  shows "\<exists>c'. date_result E d = Inr c'
              \<and> cols d1 = map (\<lambda>nc. if fst nc = ''date'' then (fst nc, c') else nc) (cols d)
              \<and> nrows d1 = nrows d"
proof (cases "map_of (cols d) ''date''")
  case None
  then have "map (\<lambda>nc. if fst nc = ''date'' then (fst nc, DtCol []) else nc) (cols d) = cols d"
    using map_of_None_names [of "cols d" "''date''"] by (intro map_idI) auto
  then show ?thesis using assms None by (auto simp: parse_dates_def date_result_def)
next
  case (Some c)
  then show ?thesis
    using assms by (auto simp: parse_dates_def date_result_def split: sum.splits)
qed

lemma parse_dates_raises: "parse_dates E d = Inl e \<Longrightarrow> e = ValueError"
  by (auto simp: parse_dates_def split: option.splits sum.splits dest: to_datetime_raises)

lemma cols_fill_parse:
  assumes "parse_dates E d = Inr d1"
  shows "\<exists>c'. date_result E d = Inr c'
              \<and> cols (fill_categorical d1)
                  = map (\<lambda>nc. (fst nc, pre_col c' (fst nc) (snd nc))) (cols d)
              \<and> nrows (fill_categorical d1) = nrows d"
proof -
  from parse_dates_cols [OF assms] obtain c' where
    r: "date_result E d = Inr c'"
    and c: "cols d1 = map (\<lambda>nc. if fst nc = ''date'' then (fst nc, c') else nc) (cols d)"
    and n: "nrows d1 = nrows d"
    by blast
  have "cols (fill_categorical d1) = map (\<lambda>nc. (fst nc, pre_col c' (fst nc) (snd nc))) (cols d)"
    by (simp add: fill_categorical_def c pre_col_def comp_def if_distrib cong: if_cong)
  then show ?thesis using r n by (auto simp: fill_categorical_def)
qed

lemma preprocess_cols:
  assumes "preprocess_data E d = Inr d'"
  shows "\<exists>c'. date_result E d = Inr c'
              \<and> cols d' = map (\<lambda>nc. (fst nc, clean_col c' (fst nc) (snd nc))) (cols d)
              \<and> nrows d' = nrows d"
proof -
  from assms obtain d1 where p: "parse_dates E d = Inr d1"
    and i: "impute_numeric (fill_categorical d1) = Inr d'"
    by (auto simp: preprocess_data_def split: sum.splits)
  from cols_fill_parse [OF p] obtain c' where
    r: "date_result E d = Inr c'"
    and c: "cols (fill_categorical d1)
              = map (\<lambda>nc. (fst nc, pre_col c' (fst nc) (snd nc))) (cols d)"
    and n: "nrows (fill_categorical d1) = nrows d"
    by blast
  have "cols d' = map (\<lambda>nc. (fst nc, clean_col c' (fst nc) (snd nc))) (cols d)"
    and "nrows d' = nrows d"
    using i c n by (auto simp: impute_numeric_def clean_col_def split: if_splits)
  then show ?thesis using r by blast
qed

lemma fillna_clean: "fillna_unknown (clean_col c' n c) = clean_col c' n c"
  by (cases c; cases c') (auto simp: clean_col_def pre_col_def split: option.splits)

lemma present_imp_cells: "present (imp_cells xs) = [] \<longleftrightarrow> xs = []"
  by (cases xs) (auto simp: present_def imp_cells_def split: option.splits)

lemma present_nonempty: "present xs \<noteq> [] \<Longrightarrow> xs \<noteq> []"
  by (auto simp: present_def)

lemma select_number_imputed:
  "select_number (d\<lparr>cols := map (\<lambda>nc. (fst nc, impute_median (snd nc))) (cols d)\<rparr>)
     = map imp_cells (select_number d)"
proof -
  have "concat (map (\<lambda>nc. case snd nc of NumCol xs \<Rightarrow> [xs] | _ \<Rightarrow> [])
          (map (\<lambda>nc. (fst nc, impute_median (snd nc))) cs))
        = map imp_cells (concat (map (\<lambda>nc. case snd nc of NumCol xs \<Rightarrow> [xs] | _ \<Rightarrow> []) cs))"
    for cs :: "(string \<times> column) list"
  proof (induction cs)
    case Nil
    show ?case by simp
  next
    case (Cons a cs)
    obtain n c where a: "a = (n, c)" by (cases a)
    show ?case using Cons by (cases c) (simp_all add: a imp_cells_def)
  qed
  then show ?thesis by (simp add: select_number_def)
qed

lemma impute_numeric_idem:
  assumes "impute_numeric d = Inr d'"
  shows "impute_numeric d' = Inr d'"
proof -
  from assms have g1: "select_number d \<noteq> []" and g2: "nrows d \<noteq> 0"
    and g3: "\<not> list_ex (\<lambda>xs. present xs = []) (select_number d)"
    and d': "d' = d\<lparr>cols := map (\<lambda>nc. (fst nc, impute_median (snd nc))) (cols d)\<rparr>"
    by (auto simp: impute_numeric_def split: if_splits)
  have sel: "select_number d' = map imp_cells (select_number d)"
    unfolding d' by (rule select_number_imputed)
  have h1: "select_number d' \<noteq> []" using g1 sel by simp
  have h2: "nrows d' \<noteq> 0" using g2 d' by simp
  have h3: "\<not> list_ex (\<lambda>xs. present xs = []) (select_number d')"
    using g3 by (auto simp: sel list_ex_iff present_imp_cells dest: present_nonempty)
  have h4: "d'\<lparr>cols := map (\<lambda>nc. (fst nc, impute_median (snd nc))) (cols d')\<rparr> = d'"
    unfolding d' by (simp add: comp_def impute_median_idem)
  show ?thesis using h1 h2 h3 h4 by (simp add: impute_numeric_def)
qed

lemma fill_clean:
  assumes "preprocess_data E d = Inr d'"
  shows "fill_categorical d' = d'"
proof -
  from preprocess_cols [OF assms] obtain c' where
    c: "cols d' = map (\<lambda>nc. (fst nc, clean_col c' (fst nc) (snd nc))) (cols d)"
    by blast
  have "cols (fill_categorical d') = cols d'"
    by (simp add: fill_categorical_def c comp_def fillna_clean)
  then show ?thesis by (simp add: fill_categorical_def)
qed

text \<open>
  A second date parsing leaves a preprocessed table as it is when its column named
  date, if it has one, is a datetime column.
\<close>

lemma parse_dates_clean:
  assumes "preprocess_data E d = Inr d'"
    and "list_all (\<lambda>nc. fst nc = ''date'' \<longrightarrow> dtype_of (snd nc) = Datetime) (cols d')"
  shows "parse_dates E d' = Inr d'"
proof (cases "map_of (cols d') ''date''")
  case None
  then show ?thesis by (simp add: parse_dates_def)
next
  case (Some c)
  from preprocess_cols [OF assms(1)] obtain c' where
    c': "cols d' = map (\<lambda>nc. (fst nc, clean_col c' (fst nc) (snd nc))) (cols d)"
    by blast
  have same: "snd nc = clean_col c' ''date'' c'" if "nc \<in> set (cols d')" "fst nc = ''date''" for nc
    using that by (auto simp: c' clean_col_def pre_col_def)
  have m: "(''date'', c) \<in> set (cols d')" using Some by (rule map_of_SomeD)
  then have ceq: "c = clean_col c' ''date'' c'" using same [of "(''date'', c)"] by simp
  have "dtype_of c = Datetime" using assms(2) m by (auto simp: list_all_iff)
  then have t: "to_datetime E c = Inr c" by (cases c) simp_all
  have "map (\<lambda>nc. if fst nc = ''date'' then (fst nc, c) else nc) (cols d') = cols d'"
  proof (intro map_idI)
    fix nc assume "nc \<in> set (cols d')"
    then show "(if fst nc = ''date'' then (fst nc, c) else nc) = nc"
      using same [of nc] ceq by (auto simp: prod_eq_iff)
  qed
  then show ?thesis using Some t by (simp add: parse_dates_def)
qed

lemma preprocess_raw0: "preprocess_data ext0 raw0 = Inr clean0"
  by (simp add: preprocess_data_def impute_numeric_def fill_categorical_def parse_dates_def
      select_number_def present_def median_def raw0_def clean0_def ext0_def)

lemma preprocess_raw_mixed: "preprocess_data ext_mixed raw_mixed = Inr clean_mixed"
  by (simp add: preprocess_data_def impute_numeric_def fill_categorical_def parse_dates_def
      select_number_def present_def raw_mixed_def clean_mixed_def ext_mixed_def ext0_def)

lemma preprocess_clean_mixed: "preprocess_data ext_mixed clean_mixed = Inr again_mixed"
  by (simp add: preprocess_data_def impute_numeric_def fill_categorical_def parse_dates_def
      select_number_def present_def clean_mixed_def again_mixed_def ext_mixed_def ext0_def)

subsection \<open>The Preprocessor, run twice\<close>

text \<open>
  C7, as the code has it. A table that preprocess_data has produced, and whose column
  named date (if it has one) is of datetime dtype, is returned unchanged by a second
  preprocess_data: the same row count, the same columns, every cell with the value it
  had. (A datetime column is returned by the date parsing as it is, a text column has
  no empty cell left to fill, and a numeric column has no empty cell left to impute.)
\<close>

theorem preprocess_data_idempotent:
  assumes "preprocess_data E d = Inr d'"
    and "list_all (\<lambda>nc. fst nc = ''date'' \<longrightarrow> dtype_of (snd nc) = Datetime) (cols d')"
  shows "preprocess_data E d' = Inr d'"
proof -
  from assms(1) obtain d1 where "impute_numeric (fill_categorical d1) = Inr d'"
    by (auto simp: preprocess_data_def split: sum.splits)
  then have "impute_numeric d' = Inr d'" by (rule impute_numeric_idem)
  then show ?thesis
    by (simp add: preprocess_data_def parse_dates_clean [OF assms] fill_clean [OF assms(1)])
qed

theorem preprocess_data_idempotent_witness:
  "preprocess_data ext0 raw0 = Inr clean0
   \<and> list_all (\<lambda>nc. fst nc = ''date'' \<longrightarrow> dtype_of (snd nc) = Datetime) (cols clean0)
   \<and> preprocess_data ext0 clean0 = Inr clean0"
proof -
  have h: "list_all (\<lambda>nc. fst nc = ''date'' \<longrightarrow> dtype_of (snd nc) = Datetime) (cols clean0)"
    by (simp add: clean0_def)
  show ?thesis
    using preprocess_data_idempotent [OF preprocess_raw0 h] preprocess_raw0 h by simp
qed

text \<open>
  C7 as stated fails. The date column of \<open>raw_mixed\<close> carries two UTC offsets, and
  pandas 2 returns it with dtype object; its missing cell is filled with Unknown. The
  table so preprocessed is changed by a second preprocess_data, which parses the date
  column again and now gets a datetime column with two cells NaT.
\<close>

theorem preprocess_twice_counterexample:
  "preprocess_data ext_mixed raw_mixed = Inr clean_mixed
   \<and> preprocess_data ext_mixed clean_mixed = Inr again_mixed
   \<and> again_mixed \<noteq> clean_mixed"
  by (simp add: preprocess_raw_mixed preprocess_clean_mixed)
     (simp add: again_mixed_def clean_mixed_def)

subsection \<open>Missing values after preprocessing\<close>


lemma summary_clean0: "get_data_summary ext0 clean0 = Inr summary0"
  by (simp add: get_data_summary_def clean0_def summary0_def ext0_def columns_def)




subsection \<open>The shape of the table\<close>

lemma col_len_clean_col:
  "col_len (clean_col c' n c) = (if n = ''date'' then col_len c' else col_len c)"
  by (cases c; cases c') (auto simp: clean_col_def pre_col_def)

lemma date_result_len:
  assumes "date_result E d = Inr c'" and "(''date'', c) \<in> set (cols d)"
    and "list_all (\<lambda>nc. col_len (snd nc) = nrows d) (cols d)"
  shows "col_len c' = nrows d"
proof -
  have "map_of (cols d) ''date'' \<noteq> None"
    using assms(2) map_of_None_names [of "cols d" "''date''"] by force
  then obtain c0 where m: "map_of (cols d) ''date'' = Some c0" by blast
  then have "(''date'', c0) \<in> set (cols d)" by (rule map_of_SomeD)
  then have "col_len c0 = nrows d" using assms(3) by (auto simp: list_all_iff)
  moreover have "to_datetime E c0 = Inr c'" using assms(1) m by (simp add: date_result_def)
  ultimately show ?thesis using to_datetime_result [of E c0 c'] by simp
qed

lemma preprocess_columns:
  assumes "preprocess_data E d = Inr d'"
  shows "columns d' = columns d" and "shape d' = shape d"
    and "well_formed d \<Longrightarrow> well_formed d'"
proof -
  from preprocess_cols [OF assms] obtain c' where
    r: "date_result E d = Inr c'"
    and c: "cols d' = map (\<lambda>nc. (fst nc, clean_col c' (fst nc) (snd nc))) (cols d)"
    and n: "nrows d' = nrows d"
    by blast
  show k: "columns d' = columns d" by (simp add: columns_def c comp_def)
  show "shape d' = shape d" by (simp add: shape_def c n)
  show "well_formed d'" if "well_formed d"
  proof -
    have l: "list_all (\<lambda>nc. col_len (snd nc) = nrows d) (cols d)"
      using that by (simp add: well_formed_def)
    have "col_len (clean_col c' (fst nc) (snd nc)) = nrows d" if "nc \<in> set (cols d)" for nc
    proof (cases "fst nc = ''date''")
      case True
      then have "(''date'', snd nc) \<in> set (cols d)" using that by (cases nc) auto
      from date_result_len [OF r this l] True show ?thesis by (simp add: col_len_clean_col)
    next
      case False
      then show ?thesis using l that by (auto simp: col_len_clean_col list_all_iff)
    qed
    then show ?thesis
      using \<open>well_formed d\<close> k by (simp add: well_formed_def c n list_all_iff)
  qed
qed

lemma columns_replace:
  "map fst (map (\<lambda>nc. if fst nc = name then (name, c) else nc) cs) = map fst cs"
  by (induction cs) auto

lemma setitem_columns:
  "setitem d name c = Inr d' \<Longrightarrow>
     columns d' = (if name \<in> set (columns d) then columns d else columns d @ [name])
     \<and> nrows d' = nrows d"
  by (cases "name \<in> set (columns d)"; cases "col_len c = nrows d")
     (auto simp: setitem_def columns_def columns_replace)

lemma list_all_replace:
  "list_all (\<lambda>nc. col_len (snd nc) = n) cs \<Longrightarrow> col_len c = n \<Longrightarrow>
     list_all (\<lambda>nc. col_len (snd nc) = n)
       (map (\<lambda>nc. if fst nc = name then (name, c) else nc) cs)"
  by (induction cs) auto

lemma setitem_well_formed:
  assumes "setitem d name c = Inr d'" and "well_formed d"
  shows "well_formed d'"
proof -
  have l: "col_len c = nrows d" using assms(1) by (auto simp: setitem_def split: if_splits)
  have k: "columns d' = (if name \<in> set (columns d) then columns d else columns d @ [name])"
    and n: "nrows d' = nrows d"
    using setitem_columns [OF assms(1)] by simp_all
  have dist: "distinct (columns d')" using assms(2) k by (simp add: well_formed_def)
  have "list_all (\<lambda>nc. col_len (snd nc) = nrows d) (cols d')"
  proof (cases "name \<in> set (columns d)")
    case True
    then have "cols d' = map (\<lambda>nc. if fst nc = name then (name, c) else nc) (cols d)"
      using assms(1) l by (auto simp: setitem_def)
    then show ?thesis using assms(2) l by (simp add: well_formed_def list_all_replace)
  next
    case False
    then have "cols d' = cols d @ [(name, c)]"
      using assms(1) l by (auto simp: setitem_def)
    then show ?thesis using assms(2) l by (simp add: well_formed_def)
  qed
  then show ?thesis using dist n by (simp add: well_formed_def)
qed

lemma perform_clustering_frame:
  assumes "perform_clustering E k d = Inr (d', R)"
  shows "nrows d' = nrows d"
    and "columns d' = (if ''cluster'' \<in> set (columns d) then columns d
                       else columns d @ [''cluster''])"
    and "well_formed d \<Longrightarrow> well_formed d'"
proof -
  from assms obtain c where s: "setitem d ''cluster'' c = Inr d'"
    by (auto simp: perform_clustering_def split: if_splits sum.splits)
  show "nrows d' = nrows d"
    and "columns d' = (if ''cluster'' \<in> set (columns d) then columns d
                       else columns d @ [''cluster''])"
    using setitem_columns [OF s] by simp_all
  show "well_formed d'" if "well_formed d" using s that by (rule setitem_well_formed)
qed

lemma setitem_member:
  "setitem d name c = Inr d' \<Longrightarrow> (name, c) \<in> set (cols d')"
  by (auto simp: setitem_def columns_def image_iff split: if_splits)

text \<open>
  What perform_clustering does with the library's results: the centers and the inertia
  are returned as KMeans gave them, and the labels, one per row, are the column cluster.
\<close>

lemma perform_clustering_passes_on:
  assumes "perform_clustering E k d = Inr (d', R)"
  shows "\<exists>labels. kmeans E k (standard_scaler E (select_number d))
                     = Inr (labels, cluster_centers R, inertia R)
                 \<and> length labels = nrows d
                 \<and> (''cluster'', NumCol (map (\<lambda>l. Some (of_int l)) labels)) \<in> set (cols d')"
proof -
  from assms obtain labels centers sse where
    k: "kmeans E k (standard_scaler E (select_number d)) = Inr (labels, centers, sse)"
    and s: "setitem d ''cluster'' (NumCol (map (\<lambda>l. Some (of_int l)) labels)) = Inr d'"
    and r: "R = \<lparr>cluster_centers = centers, inertia = sse\<rparr>"
    by (auto simp: perform_clustering_def split: if_splits sum.splits)
  have "length labels = nrows d" using s by (auto simp: setitem_def split: if_splits)
  then show ?thesis using k r setitem_member [OF s] by auto
qed

lemma shape_columns: "shape d = (nrows d, length (columns d))"
  by (simp add: shape_def columns_def)

lemma run_analysis_steps:
  assumes "run_analysis E a w = (Inr d', w')"
  shows "\<exists>S R narrative w1.
           get_data_summary E (df a) = Inr S
         \<and> perform_clustering E 3 (df a) = Inr (d', R)
         \<and> generate_narrative E S R w = (Inr narrative, w1)
         \<and> save_results E (dataset_path a) S R narrative w1 = (Inr (), w')"
  using assms
  by (auto simp: run_analysis_def split: sum.splits prod.splits)

lemma clustering_clean0: "perform_clustering ext0 3 clean0 = Inr (clustered0, result0)"
  by (simp add: perform_clustering_def select_number_def setitem_def columns_def clean0_def
      clustered0_def result0_def ext0_def numeral_3_eq_3)

lemma narrative_body_returns: "\<exists>t. fst (narrative_body E S R w) = Inr t"
  by (auto simp: narrative_body_def Let_def split: sum.splits)

lemma generate_narrative_body: "generate_narrative E S R w = narrative_body E S R w"
proof -
  obtain t where "fst (narrative_body E S R w) = Inr t"
    using narrative_body_returns by blast
  then show ?thesis
    by (cases "narrative_body E S R w") (simp add: generate_narrative_def numeral_3_eq_3)
qed

lemma narrative_ext0:
  "generate_narrative ext0 S R w = (Inr ''ok'', w\<lparr>requests := Suc (requests w)\<rparr>)"
  by (simp add: generate_narrative_body narrative_body_def Let_def content_of_def ext0_def
      strip_def is_space_def)

lemma folder_data: "folder_name ''data.csv'' = Inr ''data''"
  by (simp add: folder_name_def)

lemma save_results_returns:
  "folder_name path = Inr folder \<Longrightarrow> makedirs E folder w = Inr w1 \<Longrightarrow>
     fst (save_results E path S R narrative w) = Inr ()"
  by (simp add: save_results_def)

lemma run_a0: "fst (run_analysis ext0 a0 world0) = Inr clustered0"
proof -
  have m: "makedirs ext0 ''data'' (world0\<lparr>requests := Suc (requests world0)\<rparr>)
             = Inr (world0\<lparr>requests := Suc (requests world0),
                           fsys := (fsys world0)(''data'' \<mapsto> Dir)\<rparr>)"
    by (simp add: makedirs_def ext0_def world0_def)
  have "fst (save_results ext0 ''data.csv'' summary0 result0 ''ok''
               (world0\<lparr>requests := Suc (requests world0)\<rparr>)) = Inr ()"
    using folder_data m by (rule save_results_returns)
  then show ?thesis
    by (cases "save_results ext0 ''data.csv'' summary0 result0 ''ok''
               (world0\<lparr>requests := Suc (requests world0)\<rparr>)")
       (simp add: run_analysis_def a0_def analysis_of_def summary_clean0 clustering_clean0
          narrative_ext0)
qed

lemma wf_raw0: "well_formed raw0"
  by (simp add: well_formed_def raw0_def columns_def)

lemma wf_clean0: "well_formed clean0"
  by (simp add: well_formed_def clean0_def columns_def)

text \<open>
  C5, as the code has it. The row count is the same after every stage.
  preprocess_data keeps the columns, in number and in name. perform_clustering keeps
  them too when the table already has a column named cluster (it is replaced);
  otherwise it appends the column cluster, and the table has one column more. The
  summary, the narrative and the report return no table: after run_analysis the object
  holds the table perform_clustering made. Every stage keeps the table well formed
  (one cell per row in every column, distinct names).
\<close>

theorem table_shape_through_stages:
  "(preprocess_data E d = Inr d1 \<longrightarrow>
      shape d1 = shape d \<and> columns d1 = columns d \<and> (well_formed d \<longrightarrow> well_formed d1))
   \<and> (perform_clustering E k d = Inr (d2, R) \<longrightarrow>
        shape d2 = (nrows d, if ''cluster'' \<in> set (columns d) then length (columns d)
                             else Suc (length (columns d)))
      \<and> columns d2 = (if ''cluster'' \<in> set (columns d) then columns d
                       else columns d @ [''cluster''])
      \<and> (well_formed d \<longrightarrow> well_formed d2))
   \<and> (run_analysis E a w = (Inr d3, w') \<longrightarrow>
        shape d3 = (nrows (df a), if ''cluster'' \<in> set (columns (df a))
                                  then length (columns (df a))
                                  else Suc (length (columns (df a)))))"
proof (intro conjI impI)
  assume p: "preprocess_data E d = Inr d1"
  show "shape d1 = shape d" using p by (rule preprocess_columns)
  show "columns d1 = columns d" using p by (rule preprocess_columns)
  show "well_formed d1" if "well_formed d" using p that by (rule preprocess_columns)
next
  assume c: "perform_clustering E k d = Inr (d2, R)"
  show "columns d2 = (if ''cluster'' \<in> set (columns d) then columns d
                       else columns d @ [''cluster''])"
    using c by (rule perform_clustering_frame)
  then show "shape d2 = (nrows d, if ''cluster'' \<in> set (columns d) then length (columns d)
                             else Suc (length (columns d)))"
    using perform_clustering_frame(1) [OF c] by (simp add: shape_columns)
  show "well_formed d2" if "well_formed d" using c that by (rule perform_clustering_frame)
next
  assume r: "run_analysis E a w = (Inr d3, w')"
  from run_analysis_steps [OF r] obtain R' where c: "perform_clustering E 3 (df a) = Inr (d3, R')"
    by blast
  show "shape d3 = (nrows (df a), if ''cluster'' \<in> set (columns (df a))
                                  then length (columns (df a))
                                  else Suc (length (columns (df a))))"
    using perform_clustering_frame(1,2) [OF c] by (simp add: shape_columns)
qed

theorem table_shape_through_stages_witness:
  "preprocess_data ext0 raw0 = Inr clean0 \<and> shape clean0 = shape raw0
   \<and> well_formed raw0 \<and> well_formed clean0
   \<and> perform_clustering ext0 3 clean0 = Inr (clustered0, result0)
   \<and> ''cluster'' \<notin> set (columns clean0)
   \<and> shape clustered0 = (3, 4) \<and> well_formed clustered0
   \<and> run_analysis ext0 a0 world0 = (Inr clustered0, snd (run_analysis ext0 a0 world0))"
proof -
  have r: "run_analysis ext0 a0 world0 = (Inr clustered0, snd (run_analysis ext0 a0 world0))"
    using run_a0 by (cases "run_analysis ext0 a0 world0") simp
  have n: "''cluster'' \<notin> set (columns clean0)" by (simp add: clean0_def columns_def)
  have l: "nrows clean0 = 3 \<and> length (columns clean0) = 3" by (simp add: clean0_def columns_def)
  show ?thesis
    using table_shape_through_stages [of ext0 raw0 clean0 3 clustered0 result0 a0 world0
        clustered0 "snd (run_analysis ext0 a0 world0)"]
      table_shape_through_stages [of ext0 clean0 clean0 3 clustered0 result0 a0 world0
        clustered0 "snd (run_analysis ext0 a0 world0)"]
      preprocess_raw0 clustering_clean0 wf_raw0 wf_clean0 r n l
    by simp
qed

text \<open>
  C5 as stated fails: perform_clustering turns the clean table of three columns into
  one of four.
\<close>

theorem clustering_adds_column_counterexample:
  "perform_clustering ext0 3 clean0 = Inr (clustered0, result0)
   \<and> shape clean0 = (3, 3) \<and> shape clustered0 = (3, 4)"
  by (simp add: clustering_clean0) (simp add: shape_def clean0_def clustered0_def)

subsection \<open>The result of the clustering\<close>

lemma length_transpose_rect:
  assumes "Y \<noteq> []" and "\<forall>y\<in>set Y. length y = n"
  shows "length (transpose Y) = n"
proof -
  have "foldr (\<lambda>xs. max (length xs)) Y 0 = n"
    using assms
  proof (induction Y)
    case Nil
    then show ?case by simp
  next
    case (Cons a Y)
    then show ?case by (cases "Y = []") auto
  qed
  then show ?thesis by (simp add: length_transpose)
qed

lemma length_standardize: "length (standardize xs) = length xs"
  by (simp add: standardize_def Let_def)

lemma standardize_present: "None \<notin> set xs \<Longrightarrow> None \<notin> set (standardize xs)"
  by (auto simp: standardize_def Let_def)

lemma select_number_lengths:
  "well_formed d \<Longrightarrow> \<forall>xs\<in>set (select_number d). length xs = nrows d"
  by (fastforce simp: well_formed_def select_number_def list_all_iff split: column.splits)

lemma length_standardized_rows:
  assumes "well_formed d" and "select_number d \<noteq> []"
  shows "length (standardized_rows d) = nrows d"
proof -
  have "\<forall>y\<in>set (spec_standard_scaler (select_number d)). length y = nrows d"
    using select_number_lengths [OF assms(1)]
    by (auto simp: spec_standard_scaler_def length_standardize)
  moreover have "spec_standard_scaler (select_number d) \<noteq> []"
    using assms(2) by (simp add: spec_standard_scaler_def)
  ultimately show ?thesis
    by (simp add: standardized_rows_def length_transpose_rect)
qed

lemma points_of_clean:
  assumes "list_all (\<lambda>xs. list_all (\<lambda>x. x \<noteq> None) xs) (select_number d)"
  shows "points_of (spec_standard_scaler (select_number d)) = Some (standardized_rows d)"
proof -
  have "\<forall>xs\<in>set (select_number d). None \<notin> set xs"
    using assms by (auto simp: list_all_iff)
  then have "\<forall>ys\<in>set (spec_standard_scaler (select_number d)). None \<notin> set ys"
    by (auto simp: spec_standard_scaler_def standardize_present)
  then have "list_all (\<lambda>xs. list_all (\<lambda>x. x \<noteq> None) xs)
               (spec_standard_scaler (select_number d))"
    unfolding list_all_iff by metis
  then show ?thesis by (simp add: points_of_def standardized_rows_def)
qed

lemma points_of_rows:
  "points_of (spec_standard_scaler (select_number d)) = Some pts \<Longrightarrow> pts = standardized_rows d"
  by (auto simp: points_of_def standardized_rows_def split: if_splits)

lemma nearest_less: "cs \<noteq> [] \<Longrightarrow> nearest p cs < length cs"
proof (induction cs)
  case Nil
  then show ?case by simp
next
  case (Cons a cs)
  then show ?case by (cases "cs = []") auto
qed

lemma length_update: "length (update cs ls pts) = length cs"
  by (simp add: update_def)

lemma length_lloyd: "length (lloyd n cs pts) = length cs"
  by (induction n arbitrary: cs) (auto simp: Let_def length_update)

lemma dist2_nonneg: "0 \<le> dist2 p q"
  by (auto simp: dist2_def intro!: sum_list_nonneg)

lemma setitem_map_of:
  "setitem d name c = Inr d' \<Longrightarrow> map_of (cols d') name = Some c"
proof -
  have r: "name \<in> fst ` set cs \<Longrightarrow>
            map_of (map (\<lambda>nc. if fst nc = name then (name, c) else nc) cs) name = Some c"
    for cs :: "(string \<times> column) list"
    by (induction cs) auto
  have a: "name \<notin> fst ` set cs \<Longrightarrow> map_of (cs @ [(name, c)]) name = Some c"
    for cs :: "(string \<times> column) list"
  proof -
    assume "name \<notin> fst ` set cs"
    then have "map_of cs name = None" by (simp add: map_of_eq_None_iff)
    then show ?thesis by (simp add: map_add_def)
  qed
  assume "setitem d name c = Inr d'"
  then show ?thesis using r [of "cols d"] a [of "cols d"]
    by (auto simp: setitem_def columns_def map_add_def split: if_splits)
qed

lemma spec_kmeans_few_rows:
  assumes "well_formed d" and "nrows d < k"
  shows "perform_clustering (spec_clusterer seed E) k d = Inl ValueError"
proof (cases "select_number d = [] \<or> nrows d = 0")
  case True
  then show ?thesis by (auto simp: perform_clustering_def)
next
  case False
  have "spec_kmeans seed k (spec_standard_scaler (select_number d)) = Inl ValueError"
  proof (cases "points_of (spec_standard_scaler (select_number d))")
    case None
    then show ?thesis by (simp add: spec_kmeans_def)
  next
    case (Some pts)
    then have "length pts = nrows d"
      using points_of_rows [OF Some] length_standardized_rows [OF assms(1)] False by simp
    then show ?thesis using Some assms(2) by (simp add: spec_kmeans_def)
  qed
  then show ?thesis using False by (simp add: perform_clustering_def spec_clusterer_def)
qed

lemma nearest_minimal:
  "c \<in> set cs \<Longrightarrow> dist2 p (cs ! nearest p cs) \<le> dist2 p c"
proof (induction cs arbitrary: c)
  case Nil
  then show ?case by simp
next
  case (Cons a cs)
  show ?case
  proof (cases "list_all (\<lambda>c'. dist2 p a \<le> dist2 p c') cs")
    case True
    then show ?thesis using Cons.prems by (auto simp: list_all_iff)
  next
    case False
    then obtain b where b: "b \<in> set cs" "dist2 p b < dist2 p a"
      by (auto simp: list_all_iff not_le)
    have "dist2 p (cs ! nearest p cs) \<le> dist2 p b" using b(1) by (rule Cons.IH)
    moreover have "dist2 p (cs ! nearest p cs) \<le> dist2 p c" if "c \<in> set cs"
      using that by (rule Cons.IH)
    ultimately show ?thesis using False Cons.prems b(2) by auto
  qed
qed

text \<open>
  C6, as the code has it, with the scaler and KMeans as the specification describes
  them. For every clean, well-formed table with a numeric column and every cluster
  count k from 1 to the number of rows, and every seeding that gives k centroids,
  perform_clustering returns: exactly k centers; in the column cluster one label for
  every row, each an integer from 0 up to but not including k; and an inertia that is
  not negative and is the sum over all rows of the squared Euclidean distance between
  the row's standardized feature vector and the center of its label.
\<close>

theorem clusterer_result:
  assumes "well_formed d" and "select_number d \<noteq> []"
    and "list_all (\<lambda>xs. list_all (\<lambda>x. x \<noteq> None) xs) (select_number d)"
    and "1 \<le> k" and "k \<le> nrows d"
    and "length (seed k (standardized_rows d)) = k"
  shows "\<exists>d' R labels.
           perform_clustering (spec_clusterer seed E) k d = Inr (d', R)
         \<and> length (cluster_centers R) = k
         \<and> map_of (cols d') ''cluster'' = Some (NumCol (map (\<lambda>l. Some (of_int l)) labels))
         \<and> length labels = nrows d
         \<and> list_all (\<lambda>l. 0 \<le> l \<and> l < int k) labels
         \<and> 0 \<le> inertia R
         \<and> inertia R = sum_list (map2 (\<lambda>p l. dist2 p (cluster_centers R ! nat l))
                                    (standardized_rows d) labels)"
proof -
  define pts where "pts = standardized_rows d"
  define cs where "cs = lloyd max_iter (seed k pts) pts"
  define ls where "ls = assign cs pts"
  define sse where "sse = sum_list (map2 (\<lambda>p l. dist2 p (cs ! l)) pts ls)"
  define lab where "lab = NumCol (map (\<lambda>l. Some (of_int l)) (map int ls))"
  have n: "length pts = nrows d"
    unfolding pts_def using assms(1,2) by (rule length_standardized_rows)
  have lcs: "length cs = k"
    using assms(6) by (simp add: cs_def length_lloyd pts_def)
  have km: "spec_kmeans seed k (spec_standard_scaler (select_number d))
              = Inr (map int ls, cs, sse)"
    using assms(4,5) n points_of_clean [OF assms(3)]
    by (simp add: spec_kmeans_def Let_def pts_def cs_def ls_def sse_def)
  have lls: "length ls = nrows d" by (simp add: ls_def assign_def n)
  have "col_len lab = nrows d" by (simp add: lab_def lls)
  then obtain d' where s: "setitem d ''cluster'' lab = Inr d'"
    by (cases "''cluster'' \<in> set (columns d)") (auto simp: setitem_def)
  have pc: "perform_clustering (spec_clusterer seed E) k d
              = Inr (d', \<lparr>cluster_centers = cs, inertia = sse\<rparr>)"
    using assms(2,4,5) km s
    by (simp add: perform_clustering_def spec_clusterer_def lab_def)
  have "cs \<noteq> []" using lcs assms(4) by auto
  then have "nearest p cs < k" for p using nearest_less [of cs p] lcs by simp
  then have rng: "list_all (\<lambda>l. 0 \<le> l \<and> l < int k) (map int ls)"
    by (simp add: ls_def assign_def list_all_iff)
  have nn: "0 \<le> sse"
    unfolding sse_def by (rule sum_list_nonneg) (auto simp: dist2_nonneg)
  have eq: "sse = sum_list (map2 (\<lambda>p l. dist2 p (cs ! nat l)) pts (map int ls))"
    by (simp add: sse_def zip_map2 comp_def case_prod_unfold)
  show ?thesis
    using pc lcs setitem_map_of [OF s] lls rng nn eq
    by (intro exI [of _ d'] exI [of _ "\<lparr>cluster_centers = cs, inertia = sse\<rparr>"]
          exI [of _ "map int ls"]) (simp add: lab_def pts_def)
qed

theorem clusterer_result_witness:
  "well_formed clean0 \<and> select_number clean0 \<noteq> []
   \<and> list_all (\<lambda>xs. list_all (\<lambda>x. x \<noteq> None) xs) (select_number clean0)
   \<and> (1::nat) \<le> 3 \<and> 3 \<le> nrows clean0
   \<and> length (take 3 (standardized_rows clean0)) = 3
   \<and> (\<exists>d' R labels.
           perform_clustering (spec_clusterer (\<lambda>k. take k) ext0) 3 clean0 = Inr (d', R)
         \<and> length (cluster_centers R) = 3
         \<and> map_of (cols d') ''cluster'' = Some (NumCol (map (\<lambda>l. Some (of_int l)) labels))
         \<and> length labels = nrows clean0
         \<and> list_all (\<lambda>l. 0 \<le> l \<and> l < int 3) labels
         \<and> 0 \<le> inertia R
         \<and> inertia R = sum_list (map2 (\<lambda>p l. dist2 p (cluster_centers R ! nat l))
                                    (standardized_rows clean0) labels))"
proof -
  have s: "select_number clean0 = [[Some 1, Some (5/2), Some 4]]"
    by (simp add: select_number_def clean0_def)
  have n: "nrows clean0 = 3" by (simp add: clean0_def)
  have l: "length (take 3 (standardized_rows clean0)) = 3"
    using length_standardized_rows [OF wf_clean0] s n by simp
  have c: "list_all (\<lambda>xs. list_all (\<lambda>x. x \<noteq> None) xs) (select_number clean0)"
    by (simp add: s del: not_None_eq)
  have k: "(3::nat) \<le> nrows clean0" by (simp add: n)
  have p: "select_number clean0 \<noteq> []" by (simp add: s)
  from clusterer_result [of clean0 3 "\<lambda>k. take k" ext0, OF wf_clean0 p c _ k l]
  show ?thesis using wf_clean0 p c k l by simp
qed

text \<open>
  C6 as stated fails for a cluster count above the number of rows: KMeans refuses to
  make three clusters of the two rows of \<open>two_rows\<close>, and perform_clustering raises
  ValueError.
\<close>

theorem clusterer_few_rows_counterexample:
  "well_formed two_rows \<and> select_number two_rows \<noteq> []
   \<and> perform_clustering (spec_clusterer (\<lambda>k. take k) ext0) 3 two_rows = Inl ValueError"
proof -
  have w: "well_formed two_rows" by (simp add: well_formed_def two_rows_def columns_def)
  have n: "nrows two_rows < 3" by (simp add: two_rows_def)
  have s: "select_number two_rows \<noteq> []" by (simp add: select_number_def two_rows_def)
  show ?thesis using spec_kmeans_few_rows [OF w n] w s by simp
qed

subsection \<open>A table without numeric columns\<close>

lemma select_number_fill_parse:
  assumes "parse_dates E d = Inr d1"
  shows "select_number (fill_categorical d1)
     = concat (map (\<lambda>nc. if fst nc = ''date'' then []
                          else case snd nc of NumCol xs \<Rightarrow> [xs] | _ \<Rightarrow> []) (cols d))"
proof -
  from cols_fill_parse [OF assms] obtain c' where
    r: "date_result E d = Inr c'"
    and c: "cols (fill_categorical d1)
              = map (\<lambda>nc. (fst nc, pre_col c' (fst nc) (snd nc))) (cols d)"
    by blast
  have k: "dtype_of c' \<noteq> Number" using r by (rule date_result_not_number)
  have "(case pre_col c' n c of NumCol xs \<Rightarrow> [xs] | _ \<Rightarrow> [])
        = (if n = ''date'' then [] else case c of NumCol xs \<Rightarrow> [xs] | _ \<Rightarrow> [])" for n c
    using k by (cases c; cases c') (simp_all add: pre_col_def)
  then show ?thesis by (simp add: select_number_def c comp_def)
qed

text \<open>
  preprocess_data returns exactly on a table whose date column the library parses,
  with a row and with a numeric column other than date, each such column holding an
  observed value.
\<close>

lemma preprocess_data_returns_iff:
  "(\<exists>d'. preprocess_data E d = Inr d') \<longleftrightarrow>
     (\<exists>c'. date_result E d = Inr c')
     \<and> nrows d \<noteq> 0
     \<and> concat (map (\<lambda>nc. if fst nc = ''date'' then []
                           else case snd nc of NumCol xs \<Rightarrow> [xs] | _ \<Rightarrow> []) (cols d)) \<noteq> []
     \<and> \<not> list_ex (\<lambda>xs. present xs = [])
           (concat (map (\<lambda>nc. if fst nc = ''date'' then []
                                else case snd nc of NumCol xs \<Rightarrow> [xs] | _ \<Rightarrow> []) (cols d)))"
proof (cases "parse_dates E d")
  case (Inl e)
  then have "\<not> (\<exists>c'. date_result E d = Inr c')"
    by (auto simp: parse_dates_def date_result_def split: option.splits sum.splits)
  then show ?thesis using Inl by (simp add: preprocess_data_def)
next
  case (Inr d1)
  from cols_fill_parse [OF Inr] obtain c' where
    "date_result E d = Inr c'" and "nrows (fill_categorical d1) = nrows d"
    by blast
  then show ?thesis
    using Inr by (simp add: preprocess_data_def impute_numeric_def select_number_fill_parse [OF Inr])
qed

lemma perform_clustering_no_numeric:
  "select_number d = [] \<Longrightarrow> perform_clustering E k d = Inl ValueError"
  by (simp add: perform_clustering_def)

lemma select_number_text0: "select_number text0 = []"
  by (simp add: select_number_def text0_def)

lemma preprocess_no_numeric:
  assumes "select_number d = []"
  shows "preprocess_data E d = Inl ValueError"
proof (cases "parse_dates E d")
  case (Inl e)
  then show ?thesis using parse_dates_raises [OF Inl] by (simp add: preprocess_data_def)
next
  case (Inr d1)
  have "\<forall>nc\<in>set (cols d). (case snd nc of NumCol xs \<Rightarrow> [xs] | _ \<Rightarrow> []) = []"
    using assms by (simp add: select_number_def)
  then have "\<forall>nc\<in>set (cols d). (if fst nc = ''date'' then []
                 else case snd nc of NumCol xs \<Rightarrow> [xs] | _ \<Rightarrow> []) = []"
    by simp
  then have "select_number (fill_categorical d1) = []"
    unfolding select_number_fill_parse [OF Inr] by simp
  then show ?thesis using Inr by (simp add: preprocess_data_def impute_numeric_def)
qed

text \<open>
  C3, as the code has it. The program defines no ClusteringError. On a table without
  a numeric column perform_clustering raises the ValueError of the scaler's input
  validation, and run_analysis raises it with the world as it was: no request for the
  narrative has been made, nothing printed, nothing written. In a whole run on a file
  that parses to such a table the ValueError comes earlier still, from the imputer in
  the constructor, and again no request has been made.
\<close>

theorem no_numeric_columns_raise:
  "(select_number (df a) = [] \<longrightarrow>
      perform_clustering E k (df a) = Inl ValueError
    \<and> run_analysis E a w = (Inl ValueError, w))
   \<and> (detect_encoding E path w = Inr enc \<and> read_csv E w path enc = Inr d
        \<and> select_number d = [] \<longrightarrow>
      fst (main E path w) = Inl ValueError
    \<and> requests (snd (main E path w)) = requests w)"
  by (auto simp: run_analysis_def get_data_summary_def perform_clustering_no_numeric
      main_def init_def load_dataset_def preprocess_no_numeric)

theorem no_numeric_columns_raise_witness:
  "select_number (df (analysis_of ''cities.csv'' text0)) = []
   \<and> perform_clustering ext_csv 3 (df (analysis_of ''cities.csv'' text0)) = Inl ValueError
   \<and> run_analysis ext_csv (analysis_of ''cities.csv'' text0) world_csv
       = (Inl ValueError, world_csv)
   \<and> detect_encoding ext_csv ''cities.csv'' world_csv = Inr ''ascii''
   \<and> read_csv ext_csv world_csv ''cities.csv'' ''ascii'' = Inr text0
   \<and> fst (main ext_csv ''cities.csv'' world_csv) = Inl ValueError
   \<and> requests (snd (main ext_csv ''cities.csv'' world_csv)) = 0"
proof -
  have d: "detect_encoding ext_csv ''cities.csv'' world_csv = Inr ''ascii''"
    by (simp add: detect_encoding_def open_rb_def ext_csv_def ext0_def world_csv_def)
  have r: "read_csv ext_csv world_csv ''cities.csv'' ''ascii'' = Inr text0"
    by (simp add: read_csv_def open_rb_def ext_csv_def world_csv_def)
  have q: "requests world_csv = 0" by (simp add: world_csv_def world0_def)
  show ?thesis
    using no_numeric_columns_raise [of "analysis_of ''cities.csv'' text0" ext_csv 3 world_csv
        "''cities.csv''" "''ascii''" text0] d r q
    by (simp add: analysis_of_def select_number_text0)
qed

text \<open>
  C3 as stated fails: what run_analysis raises on the table \<open>text0\<close>, which has no
  numeric column, is a ValueError, not a ClusteringError.
\<close>

theorem no_numeric_columns_counterexample:
  "fst (run_analysis ext0 (analysis_of ''cities.csv'' text0) world0) = Inl ValueError
   \<and> fst (run_analysis ext0 (analysis_of ''cities.csv'' text0) world0)
       \<noteq> Inl (Exc ''ClusteringError'')"
  by (simp add: run_analysis_def get_data_summary_def perform_clustering_no_numeric
      select_number_text0 analysis_of_def)

subsection \<open>Ingestion\<close>

lemma load_dataset_fails_iff:
  "fst (load_dataset E path enc w) = Inl x
     \<longleftrightarrow> x = ValueError \<and> (\<exists>e. read_csv E w path enc = Inl e)"
  by (auto simp: load_dataset_def split: sum.splits)

lemma init_load_failure:
  "detect_encoding E path w = Inr enc \<Longrightarrow> fst (load_dataset E path enc w) = Inl x
     \<Longrightarrow> fst (main E path w) = Inl x"
  by (cases "load_dataset E path enc w") (auto simp: main_def init_def split: sum.splits)

text \<open>
  C4, as the code has it. load_dataset fails exactly when \<^verbatim>\<open>read_csv\<close> raises (the
  file cannot be opened, or the parser raises, as it does on a file without columns),
  and then with ValueError; a parsed table is returned whatever its row count. The
  failure is fatal: the constructor, and so the run, ends with it. A file that cannot
  be opened ends the run one step earlier, in detect_encoding, with the operating
  system's exception as it is.
\<close>

theorem load_dataset_failure:
  "(fst (load_dataset E path enc w) = Inl x
      \<longleftrightarrow> x = ValueError \<and> (\<exists>e. read_csv E w path enc = Inl e))
   \<and> (read_csv E w path enc = Inr d \<longrightarrow> fst (load_dataset E path enc w) = Inr d)
   \<and> (detect_encoding E path w = Inr enc \<and> fst (load_dataset E path enc w) = Inl x
        \<longrightarrow> fst (main E path w) = Inl x)
   \<and> (open_rb w path = Inl x \<longrightarrow> fst (main E path w) = Inl x)"
  using load_dataset_fails_iff [of E path enc w x] init_load_failure [of E path w enc x]
  by (auto simp: load_dataset_def main_def init_def detect_encoding_def split: sum.splits)

theorem load_dataset_failure_witness:
  "read_csv ext_csv world_csv ''empty.csv'' ''ascii'' = Inl (Exc ''EmptyDataError'')
   \<and> detect_encoding ext_csv ''empty.csv'' world_csv = Inr ''ascii''
   \<and> fst (load_dataset ext_csv ''empty.csv'' ''ascii'' world_csv) = Inl ValueError
   \<and> fst (main ext_csv ''empty.csv'' world_csv) = Inl ValueError
   \<and> read_csv ext_csv world_csv ''data.csv'' ''ascii'' = Inr header_only
   \<and> fst (load_dataset ext_csv ''data.csv'' ''ascii'' world_csv) = Inr header_only
   \<and> open_rb world_csv ''missing.csv'' = Inl FileNotFoundError
   \<and> fst (main ext_csv ''missing.csv'' world_csv) = Inl FileNotFoundError"
proof -
  have r: "read_csv ext_csv world_csv ''empty.csv'' ''ascii'' = Inl (Exc ''EmptyDataError'')"
    by (simp add: read_csv_def open_rb_def ext_csv_def world_csv_def)
  have d: "detect_encoding ext_csv ''empty.csv'' world_csv = Inr ''ascii''"
    by (simp add: detect_encoding_def open_rb_def ext_csv_def ext0_def world_csv_def)
  have h: "read_csv ext_csv world_csv ''data.csv'' ''ascii'' = Inr header_only"
    by (simp add: read_csv_def open_rb_def ext_csv_def world_csv_def)
  have m: "open_rb world_csv ''missing.csv'' = Inl FileNotFoundError"
    by (simp add: open_rb_def world_csv_def world0_def)
  show ?thesis
    using load_dataset_failure [of ext_csv "''empty.csv''" "''ascii''" world_csv ValueError
        header_only]
      load_dataset_failure [of ext_csv "''data.csv''" "''ascii''" world_csv ValueError
        header_only]
      load_dataset_failure [of ext_csv "''missing.csv''" "''ascii''" world_csv
        FileNotFoundError header_only]
      r d h m
    by simp
qed

text \<open>
  The run on a file of a header and no row does end with a ValueError, but not in the
  ingestion: the table is loaded, and the imputer of preprocess_data rejects it.
\<close>

lemma zero_rows_fail_in_preprocessing:
  "main ext_csv ''data.csv'' world_csv = (Inl ValueError, world_csv\<lparr>stdout := [Loaded 0 2]\<rparr>)
   \<and> preprocess_data ext_csv header_only = Inl ValueError"
proof -
  have s: "select_number header_only = []" by (simp add: select_number_def header_only_def)
  have d: "detect_encoding ext_csv ''data.csv'' world_csv = Inr ''ascii''"
    by (simp add: detect_encoding_def open_rb_def ext_csv_def ext0_def world_csv_def)
  have l: "load_dataset ext_csv ''data.csv'' ''ascii'' world_csv
             = (Inr header_only, world_csv\<lparr>stdout := [Loaded 0 2]\<rparr>)"
    by (simp add: load_dataset_def read_csv_def open_rb_def ext_csv_def world_csv_def
        world0_def header_only_def shape_def)
  show ?thesis by (simp add: main_def init_def d l preprocess_no_numeric [OF s])
qed

text \<open>
  C4 as stated fails: a file of a header and no row parses to a table of zero rows,
  and load_dataset returns it and prints that the dataset was loaded, with 0 rows and
  2 columns.
\<close>

theorem load_dataset_zero_rows_counterexample:
  "load_dataset ext_csv ''data.csv'' ''ascii'' world_csv
     = (Inr header_only, world_csv\<lparr>stdout := [Loaded 0 2]\<rparr>)
   \<and> nrows header_only = 0"
  by (simp add: load_dataset_def read_csv_def open_rb_def ext_csv_def world_csv_def
      world0_def header_only_def shape_def)

subsection \<open>The narrative: one attempt\<close>

text \<open>
  What the retry decorator does with a function that raises every time: three calls,
  two waits of four seconds, then RetryError.
\<close>

lemma retry_exhausted:
  "retry 3 1 (\<lambda>w. (Inl (Exc ''Timeout'') :: exc + string, w\<lparr>requests := Suc (requests w)\<rparr>))
     world0
   = (Inl RetryError, world0\<lparr>requests := 3, slept := [4, 4]\<rparr>)"
  by (simp add: numeral_3_eq_3 wait_exponential_def world0_def)

text \<open>
  The body of generate_narrative never raises, so the decorator never sees a failure:
  whatever the service does, one request is made and nothing is slept.
\<close>

lemma generate_narrative_requests:
  "requests (snd (generate_narrative E S R w)) = Suc (requests w)
   \<and> slept (snd (generate_narrative E S R w)) = slept w
   \<and> (\<exists>t. fst (generate_narrative E S R w) = Inr t)"
  by (auto simp: generate_narrative_body narrative_body_def Let_def split: sum.splits)

text \<open>
  C1, evaluated on a service that fails on every attempt: generate_narrative returns
  the fallback sentence after one request and no wait. The claim's three attempts with
  backoff do not happen.
\<close>

theorem generate_narrative_one_attempt:
  "fst (generate_narrative ext_down summary0 result0 world0) = Inr fallback
   \<and> requests (snd (generate_narrative ext_down summary0 result0 world0)) = 1
   \<and> slept (snd (generate_narrative ext_down summary0 result0 world0)) = []"
  by (simp add: generate_narrative_body narrative_body_def Let_def ext_down_def ext0_def
      world0_def)

subsection \<open>The report\<close>

lemma str_split_nonempty: "str_split sep s \<noteq> []"
  by (induction s) (auto split: list.splits)

lemma folder_name_returns: "\<exists>folder. folder_name path = Inr folder"
  using str_split_nonempty [of "CHR ''.''" path]
  by (auto simp: folder_name_def split: list.splits)

lemma stdout_append_chunk: "stdout (append_chunk p c w) = stdout w"
  by (simp add: append_chunk_def)

lemma stdout_write_all: "stdout (snd (write_all E p k cs w)) = stdout w"
  by (induction cs arbitrary: k w) (auto simp: stdout_append_chunk split: option.splits)

lemma stdout_makedirs: "makedirs E folder w = Inr w1 \<Longrightarrow> stdout w1 = stdout w"
  by (auto simp: makedirs_def split: if_splits option.splits node.splits)

lemma stdout_open_w: "open_w E p w = Inr w1 \<Longrightarrow> stdout w1 = stdout w"
  by (auto simp: open_w_def split: option.splits node.splits)

lemma stdout_write_report:
  "stdout (write_report E p cs w) = stdout w @
     [case open_w E p w of
        Inl e \<Rightarrow> SaveFailed e
      | Inr w2 \<Rightarrow> (case fst (write_all E p 0 cs w2) of Some e \<Rightarrow> SaveFailed e | None \<Rightarrow> Saved)]"
proof (cases "open_w E p w")
  case (Inl e)
  then show ?thesis by (simp add: write_report_def)
next
  case (Inr w2)
  obtain r w3 where wa: "write_all E p 0 cs w2 = (r, w3)" by (cases "write_all E p 0 cs w2")
  have "stdout w3 = stdout w2" using stdout_write_all [of E p 0 cs w2] wa by simp
  moreover have "stdout w2 = stdout w" using Inr by (rule stdout_open_w)
  ultimately show ?thesis using Inr wa by (cases r) (simp_all add: write_report_def)
qed

lemma fsys_write_all_other:
  "q \<noteq> p \<Longrightarrow> fsys (snd (write_all E p k cs w)) q = fsys w q"
  by (induction cs arbitrary: k w) (auto simp: append_chunk_def split: option.splits)

lemma fsys_write_report_other:
  "q \<noteq> p \<Longrightarrow> fsys (write_report E p cs w) q = fsys w q"
proof (cases "open_w E p w")
  case (Inl e)
  then show ?thesis by (simp add: write_report_def)
next
  case (Inr w2)
  assume qp: "q \<noteq> p"
  obtain r w3 where wa: "write_all E p 0 cs w2 = (r, w3)" by (cases "write_all E p 0 cs w2")
  have "fsys w3 q = fsys w2 q" using fsys_write_all_other [OF qp, of E 0 cs w2] wa by simp
  moreover have "fsys w2 q = fsys w q"
    using Inr qp by (auto simp: open_w_def split: option.splits node.splits)
  ultimately show ?thesis using Inr wa by (cases r) (simp_all add: write_report_def)
qed

lemma write_all_no_fault:
  "write_fault E = (\<lambda>k. None) \<Longrightarrow> fsys w p = Some (File old) \<Longrightarrow>
     fst (write_all E p k cs w) = None
     \<and> fsys (snd (write_all E p k cs w)) p = Some (File (old @ cs))"
  by (induction cs arbitrary: k w old) (auto simp: append_chunk_def)

lemma write_report_no_fault:
  assumes "write_fault E = (\<lambda>k. None)" and "open_fault E p = None" and "fsys w p \<noteq> Some Dir"
  shows "fsys (write_report E p cs w) p = Some (File cs)"
proof -
  have o: "open_w E p w = Inr (w\<lparr>fsys := (fsys w)(p \<mapsto> File [])\<rparr>)"
    using assms(2,3) by (auto simp: open_w_def split: option.splits node.splits)
  have "fsys (w\<lparr>fsys := (fsys w)(p \<mapsto> File [])\<rparr>) p = Some (File [])" by simp
  from write_all_no_fault [OF assms(1) this, of 0 cs]
  show ?thesis
    by (cases "write_all E p 0 cs (w\<lparr>fsys := (fsys w)(p \<mapsto> File [])\<rparr>)")
       (auto simp: write_report_def o)
qed

lemma write_fault_full:
  "fst (write_all ext_full p 0 (report_chunks path S R narrative) w) = Some (Exc ''OSError'')"
  by (simp add: report_chunks_def ext_full_def)

text \<open>
  Once the folder exists or has been created, save_results returns normally whatever
  happens to README.md: a failure of opening it or of any write is caught and printed
  (one \<open>SaveFailed\<close> event with the exception), and success prints \<open>Saved\<close>. The
  file keeps what was written before the failure.
\<close>

lemma save_results_catches_write_failures:
  assumes "folder_name path = Inr folder" and "makedirs E folder w = Inr w1"
  shows "fst (save_results E path S R narrative w) = Inr ()
         \<and> stdout (snd (save_results E path S R narrative w)) = stdout w @
             [case open_w E (folder @ ''/README.md'') w1 of
                Inl e \<Rightarrow> SaveFailed e
              | Inr w2 \<Rightarrow>
                  (case fst (write_all E (folder @ ''/README.md'') 0
                               (report_chunks path S R narrative) w2) of
                     Some e \<Rightarrow> SaveFailed e
                   | None \<Rightarrow> Saved)]"
  using assms stdout_makedirs [OF assms(2)]
  by (simp add: save_results_def stdout_write_report)

lemma save_results_full_disk:
  "folder_name ''data.csv'' = Inr ''data''
   \<and> makedirs ext_full ''data'' world0 = Inr (world0\<lparr>fsys := (fsys world0)(''data'' \<mapsto> Dir)\<rparr>)
   \<and> fst (save_results ext_full ''data.csv'' summary0 result0 ''ok'' world0) = Inr ()
   \<and> stdout (snd (save_results ext_full ''data.csv'' summary0 result0 ''ok'' world0))
       = [SaveFailed (Exc ''OSError'')]"
proof -
  have m: "makedirs ext_full ''data'' world0
             = Inr (world0\<lparr>fsys := (fsys world0)(''data'' \<mapsto> Dir)\<rparr>)"
    by (simp add: makedirs_def ext_full_def ext0_def world0_def)
  have "\<exists>w2. open_w ext_full ''data/README.md''
               (world0\<lparr>fsys := (fsys world0)(''data'' \<mapsto> Dir)\<rparr>) = Inr w2"
    by (simp add: open_w_def ext_full_def ext0_def world0_def)
  then obtain w2 where o: "open_w ext_full ''data/README.md''
               (world0\<lparr>fsys := (fsys world0)(''data'' \<mapsto> Dir)\<rparr>) = Inr w2" ..
  show ?thesis
    using save_results_catches_write_failures [OF folder_data m, of summary0 result0 "''ok''"]
      m o folder_data write_fault_full
    by (simp add: world0_def)
qed

text \<open>
  A failure of the creation of the folder is not caught: \<^verbatim>\<open>os.makedirs\<close> stands
  before the \<^verbatim>\<open>try\<close>, and its exception leaves save_results with nothing printed
  and nothing written.
\<close>

lemma save_results_makedirs_propagates:
  "folder_name path = Inr folder \<Longrightarrow> makedirs E folder w = Inl e \<Longrightarrow>
     save_results E path S R narrative w = (Inl e, w)"
  by (simp add: save_results_def)

lemma run_analysis_makedirs_propagates:
  assumes "get_data_summary E (df a) = Inr S"
    and "perform_clustering E 3 (df a) = Inr (d', R)"
    and "generate_narrative E S R w = (Inr narrative, w1)"
    and "folder_name (dataset_path a) = Inr folder"
    and "makedirs E folder w1 = Inl e"
  shows "run_analysis E a w = (Inl e, w1)"
  using assms by (simp add: run_analysis_def save_results_def)

text \<open>
  C9, evaluated where the folder cannot be created. When the system refuses the
  directory (here for the path \<^verbatim>\<open>data.csv\<close>), save_results raises the system's
  PermissionError instead of catching and printing it, as it does with a failure of
  opening or writing README.md; and for the path \<^verbatim>\<open>./data.csv\<close>, whose folder name
  is empty, it raises FileNotFoundError. In both cases nothing is printed.
\<close>

theorem save_results_makedirs_uncaught:
  "save_results ext_denied ''data.csv'' summary0 result0 ''ok'' world0
     = (Inl (Exc ''PermissionError''), world0)
   \<and> save_results ext0 ''./data.csv'' summary0 result0 ''ok'' world0
       = (Inl FileNotFoundError, world0)"
  by (simp add: save_results_def folder_name_def makedirs_def ext_denied_def ext0_def world0_def)

text \<open>
  C8, evaluated on the path \<^verbatim>\<open>sales.2024.csv\<close>: the code cuts the path at its first
  dot, so the report is written to \<^verbatim>\<open>sales/README.md\<close>, while the folder the
  specification names is \<^verbatim>\<open>sales.2024\<close>, where nothing is written.
\<close>

theorem folder_name_first_dot:
  "folder_name ''sales.2024.csv'' = Inr ''sales''
   \<and> spec_folder_name ''sales.2024.csv'' = ''sales.2024''
   \<and> fsys (snd (save_results ext0 ''sales.2024.csv'' summary0 result0 ''ok'' world0))
        ''sales/README.md''
       = Some (File (report_chunks ''sales.2024.csv'' summary0 result0 ''ok''))
   \<and> fsys (snd (save_results ext0 ''sales.2024.csv'' summary0 result0 ''ok'' world0))
        ''sales.2024/README.md''
       = None"
proof -
  have f: "folder_name ''sales.2024.csv'' = Inr ''sales''"
    by (simp add: folder_name_def)
  have b: "spec_folder_name ''sales.2024.csv'' = ''sales.2024''"
    by (simp add: spec_folder_name_def)
  have m: "makedirs ext0 ''sales'' world0
             = Inr (world0\<lparr>fsys := (fsys world0)(''sales'' \<mapsto> Dir)\<rparr>)"
    by (simp add: makedirs_def ext0_def world0_def)
  have s: "snd (save_results ext0 ''sales.2024.csv'' summary0 result0 ''ok'' world0)
        = write_report ext0 ''sales/README.md''
            (report_chunks ''sales.2024.csv'' summary0 result0 ''ok'')
            (world0\<lparr>fsys := (fsys world0)(''sales'' \<mapsto> Dir)\<rparr>)"
    by (simp add: save_results_def f m)
  have r1: "fsys (write_report ext0 ''sales/README.md''
            (report_chunks ''sales.2024.csv'' summary0 result0 ''ok'')
            (world0\<lparr>fsys := (fsys world0)(''sales'' \<mapsto> Dir)\<rparr>)) ''sales/README.md''
          = Some (File (report_chunks ''sales.2024.csv'' summary0 result0 ''ok''))"
    by (rule write_report_no_fault) (simp_all add: ext0_def world0_def)
  have r2: "fsys (write_report ext0 ''sales/README.md''
            (report_chunks ''sales.2024.csv'' summary0 result0 ''ok'')
            (world0\<lparr>fsys := (fsys world0)(''sales'' \<mapsto> Dir)\<rparr>)) ''sales.2024/README.md''
          = None"
    by (subst fsys_write_report_other) (simp_all add: world0_def)
  show ?thesis using f b s r1 r2 by simp
qed

subsection \<open>The summary is taken before the clustering\<close>

lemma get_data_summary_fields:
  "get_data_summary E d = Inr S \<Longrightarrow>
     total_rows S = nrows d \<and> total_columns S = length (cols d)
     \<and> map fst (column_types S) = columns d \<and> map fst (missing_values S) = columns d"
  by (auto simp: get_data_summary_def columns_def comp_def split: if_splits)

text \<open>
  C10. A run of run_analysis that returns has taken the summary S of the table as
  it was before the clustering, and it is this S that generate_narrative and
  save_results receive. S lists the columns of that table: when the table had no
  column named cluster, S names none in its column types and its missing values, and
  its total_columns is one less than the column count of the table the clustering
  leaves behind.
\<close>

theorem summary_precedes_clustering:
  assumes "run_analysis E a w = (Inr d', w')"
  shows "\<exists>S R narrative w1.
           get_data_summary E (df a) = Inr S
         \<and> perform_clustering E 3 (df a) = Inr (d', R)
         \<and> generate_narrative E S R w = (Inr narrative, w1)
         \<and> save_results E (dataset_path a) S R narrative w1 = (Inr (), w')
         \<and> total_columns S = length (cols (df a))
         \<and> map fst (column_types S) = columns (df a)
         \<and> map fst (missing_values S) = columns (df a)
         \<and> ''cluster'' \<in> set (columns d')
         \<and> (''cluster'' \<notin> set (columns (df a)) \<longrightarrow>
              ''cluster'' \<notin> set (map fst (column_types S))
            \<and> ''cluster'' \<notin> set (map fst (missing_values S))
            \<and> length (cols d') = Suc (total_columns S))"
proof -
  from run_analysis_steps [OF assms] obtain S R narrative w1 where
    s: "get_data_summary E (df a) = Inr S"
    and c: "perform_clustering E 3 (df a) = Inr (d', R)"
    and g: "generate_narrative E S R w = (Inr narrative, w1)"
    and r: "save_results E (dataset_path a) S R narrative w1 = (Inr (), w')"
    by blast
  have l: "length (cols x) = length (columns x)" for x by (simp add: columns_def)
  have k: "''cluster'' \<in> set (columns d')"
    using perform_clustering_frame(2) [OF c] by (simp split: if_splits)
  show ?thesis
    using s c g r k get_data_summary_fields [OF s] perform_clustering_frame(2) [OF c]
    by (intro exI [of _ S] exI [of _ R] exI [of _ narrative] exI [of _ w1]) (simp add: l)
qed

theorem summary_precedes_clustering_witness:
  "run_analysis ext0 a0 world0 = (Inr clustered0, snd (run_analysis ext0 a0 world0))
   \<and> get_data_summary ext0 (df a0) = Inr summary0
   \<and> total_columns summary0 = 3
   \<and> length (cols clustered0) = 4
   \<and> ''cluster'' \<notin> set (columns (df a0))
   \<and> ''cluster'' \<notin> set (map fst (column_types summary0))
   \<and> ''cluster'' \<in> set (columns clustered0)"
proof -
  have r: "run_analysis ext0 a0 world0 = (Inr clustered0, snd (run_analysis ext0 a0 world0))"
    using run_a0 by (cases "run_analysis ext0 a0 world0") simp
  have s: "get_data_summary ext0 (df a0) = Inr summary0"
    by (simp add: a0_def analysis_of_def summary_clean0)
  have n: "''cluster'' \<notin> set (columns (df a0))"
    by (simp add: a0_def analysis_of_def clean0_def columns_def)
  from summary_precedes_clustering [OF r] s n show ?thesis
    using r by (auto simp: summary0_def clustered0_def)
qed

end
